theory Spec2Isabelle
  imports Complex_Main
begin

section \<open>Python values, exceptions and dictionaries\<close>

text \<open>
  The values that travel through the hyperparameter namespace: \<open>None\<close>, booleans,
  integers, floats (idealised as reals), strings, and the bound methods that the
  argument-parser library attaches to a parsed namespace.
\<close>

datatype pyval = NoneV | BoolV bool | IntV int | FloatV real | StrV string | MethodV string

text \<open>Every exception the modelled code can raise is a value of this type.\<close>

datatype error =
    AttributeError string
  | KeyError string
  | IndexError
  | NameError string
  | TypeError
  | ArgumentError string
  | HelpExit

definition bindE :: "error + 'a \<Rightarrow> ('a \<Rightarrow> error + 'b) \<Rightarrow> error + 'b" where
  "bindE m f = (case m of Inl e \<Rightarrow> Inl e | Inr x \<Rightarrow> f x)"

text \<open>
  A Python \<open>dict\<close> keeps its keys in insertion order: an association list.
  \<open>d[k]\<close> raises \<open>KeyError\<close> on a missing key, \<open>d[k] = v\<close> replaces the value in
  place or appends the key, \<open>d.update(other)\<close> stores the entries of \<open>other\<close> one by one.
\<close>

type_synonym 'a dict = "(string \<times> 'a) list"

definition keys :: "'a dict \<Rightarrow> string list" where
  "keys d = map fst d"

definition getitem :: "'a dict \<Rightarrow> string \<Rightarrow> error + 'a" where
  "getitem d k = (case map_of d k of None \<Rightarrow> Inl (KeyError k) | Some v \<Rightarrow> Inr v)"

fun setitem :: "'a dict \<Rightarrow> string \<Rightarrow> 'a \<Rightarrow> 'a dict" where
  "setitem [] k v = [(k, v)]"
| "setitem (p # ps) k v = (if fst p = k then (k, v) # ps else p # setitem ps k v)"

fun dict_update :: "'a dict \<Rightarrow> 'a dict \<Rightarrow> 'a dict" where
  "dict_update d [] = d"
| "dict_update d (kv # kvs) = dict_update (setitem d (fst kv) (snd kv)) kvs"

text \<open>
  The parsed hyperparameters are an \<open>argparse\<close> namespace: attribute access
  \<open>hparams.name\<close> raises \<open>AttributeError\<close> when the attribute is missing.
\<close>

type_synonym namespace = "pyval dict"

definition getattr :: "namespace \<Rightarrow> string \<Rightarrow> error + pyval" where
  "getattr ns name = (case map_of ns name of None \<Rightarrow> Inl (AttributeError name) | Some v \<Rightarrow> Inr v)"

text \<open>\<open>os.path.join\<close> of two components on a POSIX system.\<close>

definition os_path_join :: "string \<Rightarrow> string \<Rightarrow> string" where
  "os_path_join a b =
     (if b \<noteq> [] \<and> hd b = CHR ''/'' then b
      else if a = [] \<or> last a = CHR ''/'' then a @ b
      else a @ ''/'' @ b)"

section \<open>The argument parser\<close>

text \<open>
  \<open>HyperOptArgumentParser\<close> (package \<open>test_tube\<close>) extends \<open>argparse.ArgumentParser\<close>.
  A parser is the list of its declared arguments, in declaration order. Each argument
  has its option strings, its destination attribute, an action (\<open>store\<close> with a type
  conversion, \<open>store_true\<close>, or \<open>help\<close>), a default (absent for \<open>help\<close>, whose default is
  suppressed), optional \<open>choices\<close>, and the search space that \<open>opt_list\<close> and
  \<open>opt_range\<close> register for the hyperparameter search. The keywords \<open>help\<close> and
  \<open>metavar\<close> only affect the usage text and are left out.
\<close>

datatype arg_type = TInt | TFloat | TStr

datatype arg_action = Store arg_type | StoreTrue | Help

datatype search_space =
    NotTunable
  | OptList "pyval list" bool
  | OptRange real real nat bool

record arg_spec =
  flags :: "string list"
  dest :: string
  action :: arg_action
  default_value :: "pyval option"
  choices :: "pyval list option"
  opt :: search_space

type_synonym parser = "arg_spec list"

text \<open>
  Without an explicit \<open>dest\<close>, \<open>argparse\<close> takes the first long option string, strips
  the leading dashes and replaces every remaining dash by an underscore.
\<close>

definition is_long :: "string \<Rightarrow> bool" where
  "is_long f = (take 2 f = ''--'')"

definition dest_of :: "string list \<Rightarrow> string" where
  "dest_of fl =
     (let f = (case filter is_long fl of [] \<Rightarrow> (case fl of [] \<Rightarrow> [] | g # _ \<Rightarrow> g) | g # _ \<Rightarrow> g)
      in map (\<lambda>c. if c = CHR ''-'' then CHR ''_'' else c) (dropWhile (\<lambda>c. c = CHR ''-'') f))"

definition make_spec ::
  "string list \<Rightarrow> string option \<Rightarrow> arg_action \<Rightarrow> pyval \<Rightarrow> pyval list option \<Rightarrow> arg_spec" where
  "make_spec fl d a df ch =
     \<lparr>flags = fl, dest = (case d of None \<Rightarrow> dest_of fl | Some x \<Rightarrow> x), action = a,
      default_value = Some df, choices = ch, opt = NotTunable\<rparr>"

definition add_argument ::
  "parser \<Rightarrow> string list \<Rightarrow> string option \<Rightarrow> arg_action \<Rightarrow> pyval \<Rightarrow> pyval list option \<Rightarrow> parser" where
  "add_argument p fl d a df ch = p @ [make_spec fl d a df ch]"

text \<open>
  \<open>opt_list\<close> and \<open>opt_range\<close> remove their search-space keywords, pass everything else
  to \<open>add_argument\<close>, and remember the search space. The \<open>options\<close> of \<open>opt_list\<close> are
  not \<open>choices\<close>: they restrict what the search samples, not what the command line accepts.
\<close>

definition opt_list ::
  "parser \<Rightarrow> string list \<Rightarrow> arg_type \<Rightarrow> pyval \<Rightarrow> pyval list \<Rightarrow> bool \<Rightarrow> parser" where
  "opt_list p fl ty df options tunable =
     p @ [(make_spec fl None (Store ty) df None)\<lparr>opt := OptList options tunable\<rparr>]"

definition opt_range ::
  "parser \<Rightarrow> string list \<Rightarrow> string option \<Rightarrow> arg_type \<Rightarrow> pyval \<Rightarrow> real \<Rightarrow> real \<Rightarrow> nat \<Rightarrow> bool \<Rightarrow> parser" where
  "opt_range p fl d ty df low high nb_samples tunable =
     p @ [(make_spec fl d (Store ty) df None)\<lparr>opt := OptRange low high nb_samples tunable\<rparr>]"

definition help_spec :: arg_spec where
  "help_spec = \<lparr>flags = [''-h'', ''--help''], dest = ''help'', action = Help,
                default_value = None, choices = None, opt = NotTunable\<rparr>"

text \<open>
  A new parser starts with the \<open>-h/--help\<close> argument unless \<open>add_help = False\<close>, followed
  by the arguments of its \<open>parents\<close>.
\<close>

definition HyperOptArgumentParser :: "bool \<Rightarrow> parser list \<Rightarrow> parser" where
  "HyperOptArgumentParser add_help parents = (if add_help then [help_spec] else []) @ concat parents"

subsection \<open>Type conversions\<close>

text \<open>
  \<open>int(s)\<close> and \<open>float(s)\<close> on plain decimal literals: an optional sign, digits, and for
  floats an optional fraction. Python also accepts exponents, \<open>inf\<close>, \<open>nan\<close>,
  underscores between digits and surrounding blanks; these spellings are outside the
  modelled command-line language and are rejected here.
\<close>

definition is_digit :: "char \<Rightarrow> bool" where
  "is_digit c = (c \<in> set ''0123456789'')"

definition digit_val :: "char \<Rightarrow> nat" where
  "digit_val c = (of_char c :: nat) - 48"

definition digits_val :: "string \<Rightarrow> nat" where
  "digits_val s = foldl (\<lambda>n c. 10 * n + digit_val c) 0 s"

definition strip_sign :: "string \<Rightarrow> bool \<times> string" where
  "strip_sign s =
     (case s of
        [] \<Rightarrow> (False, [])
      | c # cs \<Rightarrow> if c = CHR ''-'' then (True, cs) else if c = CHR ''+'' then (False, cs) else (False, s))"

definition py_int :: "string \<Rightarrow> int option" where
  "py_int s =
     (case strip_sign s of (neg, ds) \<Rightarrow>
        if ds \<noteq> [] \<and> list_all is_digit ds
        then Some (if neg then - int (digits_val ds) else int (digits_val ds))
        else None)"

definition py_float :: "string \<Rightarrow> real option" where
  "py_float s =
     (case strip_sign s of (neg, body) \<Rightarrow>
        let ip = takeWhile is_digit body;
            rest = dropWhile is_digit body;
            fp = (case rest of [] \<Rightarrow> [] | c # cs \<Rightarrow> cs)
        in if (rest = [] \<or> hd rest = CHR ''.'') \<and> list_all is_digit fp \<and> ip @ fp \<noteq> []
           then let r = real (digits_val (ip @ fp)) / 10 ^ length fp
                in Some (if neg then - r else r)
           else None)"

definition convert :: "arg_type \<Rightarrow> string \<Rightarrow> pyval option" where
  "convert ty s =
     (case ty of
        TInt \<Rightarrow> map_option IntV (py_int s)
      | TFloat \<Rightarrow> map_option FloatV (py_float s)
      | TStr \<Rightarrow> Some (StrV s))"

subsection \<open>Parsing a command line\<close>

text \<open>
  The namespace starts with the defaults of all arguments, in declaration order.
  Then the tokens are consumed from left to right:
  \<^item> a token is looked up among the option strings, as it stands or, for the form
    \<open>--flag=value\<close>, split at its first \<open>=\<close>; an unknown token is an error (no
    positional arguments are declared; abbreviated option names are not modelled);
  \<^item> \<open>store_true\<close> sets its destination to \<open>True\<close> and takes no value;
  \<^item> \<open>store\<close> takes the explicit value or the next token, which must not look like an
    option (a leading dash, unless the token is a negative number or contains a blank),
    converts it with the argument's type and checks it against the argument's \<open>choices\<close>
    when it has any;
  \<^item> \<open>-h\<close> prints the usage and exits.
  Parsing stops with an error at the first token that cannot be consumed.
\<close>

definition find_spec :: "parser \<Rightarrow> string \<Rightarrow> arg_spec option" where
  "find_spec p flag = find (\<lambda>s. flag \<in> set (flags s)) p"

definition split_explicit :: "parser \<Rightarrow> string \<Rightarrow> string \<times> string option" where
  "split_explicit p tok =
     (if find_spec p tok \<noteq> None \<or> CHR ''='' \<notin> set tok then (tok, None)
      else (takeWhile (\<lambda>c. c \<noteq> CHR ''='') tok, Some (tl (dropWhile (\<lambda>c. c \<noteq> CHR ''='') tok))))"

definition negative_number_like :: "string \<Rightarrow> bool" where
  "negative_number_like s =
     (case s of
        [] \<Rightarrow> False
      | c # cs \<Rightarrow>
          c = CHR ''-'' \<and>
          (let ip = takeWhile is_digit cs; rest = dropWhile is_digit cs
           in (ip \<noteq> [] \<and> rest = []) \<or>
              (rest \<noteq> [] \<and> hd rest = CHR ''.'' \<and> tl rest \<noteq> [] \<and> list_all is_digit (tl rest))))"

definition looks_like_option :: "string \<Rightarrow> bool" where
  "looks_like_option s =
     (length s > 1 \<and> hd s = CHR ''-'' \<and> \<not> negative_number_like s \<and> CHR '' '' \<notin> set s)"

definition store_value :: "arg_spec \<Rightarrow> arg_type \<Rightarrow> string \<Rightarrow> namespace \<Rightarrow> error + namespace" where
  "store_value spec ty s ns =
     (case convert ty s of
        None \<Rightarrow> Inl (ArgumentError (hd (flags spec)))
      | Some v \<Rightarrow>
          (case choices spec of
             None \<Rightarrow> Inr (setitem ns (dest spec) v)
           | Some cs \<Rightarrow>
               if v \<in> set cs then Inr (setitem ns (dest spec) v)
               else Inl (ArgumentError (hd (flags spec)))))"

fun parse_loop :: "parser \<Rightarrow> string list \<Rightarrow> namespace \<Rightarrow> error + namespace" where
  "parse_loop p [] ns = Inr ns"
| "parse_loop p (tok # rest) ns =
     (case find_spec p (fst (split_explicit p tok)) of
        None \<Rightarrow> Inl (ArgumentError tok)
      | Some spec \<Rightarrow>
          (case action spec of
             Help \<Rightarrow> Inl HelpExit
           | StoreTrue \<Rightarrow>
               (case snd (split_explicit p tok) of
                  Some _ \<Rightarrow> Inl (ArgumentError tok)
                | None \<Rightarrow> parse_loop p rest (setitem ns (dest spec) (BoolV True)))
           | Store ty \<Rightarrow>
               (case snd (split_explicit p tok) of
                  Some s \<Rightarrow> bindE (store_value spec ty s ns) (parse_loop p rest)
                | None \<Rightarrow>
                    (case rest of
                       [] \<Rightarrow> Inl (ArgumentError tok)
                     | s # rest' \<Rightarrow>
                         if looks_like_option s then Inl (ArgumentError tok)
                         else bindE (store_value spec ty s ns) (parse_loop p rest')))))"

definition defaults :: "parser \<Rightarrow> namespace" where
  "defaults p =
     foldl (\<lambda>ns s. case default_value s of
                      None \<Rightarrow> ns
                    | Some v \<Rightarrow> if dest s \<in> set (keys ns) then ns else ns @ [(dest s, v)]) [] p"

text \<open>
  \<open>HyperOptArgumentParser.parse_args\<close> attaches to the parsed namespace the attribute
  \<open>hpc_exp_number\<close> and its own search methods; the notebook prints them for the
  empty command line.
\<close>

definition library_attributes :: namespace where
  "library_attributes =
     [(''hpc_exp_number'', NoneV),
      (''trials'', MethodV ''opt_trials''),
      (''optimize_parallel'', MethodV ''optimize_parallel''),
      (''optimize_parallel_gpu'', MethodV ''optimize_parallel_gpu''),
      (''optimize_parallel_cpu'', MethodV ''optimize_parallel_cpu''),
      (''generate_trials'', MethodV ''generate_trials''),
      (''optimize_trials_parallel_gpu'', MethodV ''optimize_trials_parallel_gpu'')]"

definition parse_args :: "parser \<Rightarrow> string list \<Rightarrow> error + namespace" where
  "parse_args p argv =
     bindE (parse_loop p argv (defaults p)) (\<lambda>ns. Inr (dict_update ns library_attributes))"

section \<open>The hyperparameters of the model and of the run\<close>

text \<open>\<open>EmotionModel.add_model_specific_args\<close> (a static method).\<close>

definition add_model_specific_args :: "parser \<Rightarrow> string \<Rightarrow> parser" where
  "add_model_specific_args parent_parser root_dir =
     (let parser = HyperOptArgumentParser True [parent_parser];
          parser = opt_list parser [''--bs'', ''--batch_size''] TInt (IntV 40)
                     [IntV 10, IntV 40, IntV 80] True;
          parser = opt_list parser [''--max_seq_len''] TInt (IntV 10)
                     [IntV 5, IntV 10, IntV 15] True;
          parser = opt_list parser [''--projection_size''] TInt (IntV 100)
                     [IntV 50, IntV 100, IntV 150] True;
          parser = opt_list parser [''--dropout''] TFloat (FloatV (1/10))
                     [FloatV (5/100), FloatV (1/10), FloatV (2/10)] True;
          parser = opt_list parser [''--n_layers''] TInt (IntV 1)
                     [IntV 1, IntV 2, IntV 3] True;
          parser = opt_range parser [''--lr'', ''--learning_rate''] (Some ''lr'') TFloat
                     (FloatV (2/100000)) (1/100000) (3/100000) 4 True;
          parser = opt_list parser [''--layerwise_decay''] TFloat (FloatV (95/100))
                     [FloatV (99/100), FloatV (95/100), FloatV (9/10)] True;
          parser = add_argument parser [''--train_file''] None (Store TStr)
                     (StrV (os_path_join root_dir ''data/clean_train.txt'')) None;
          parser = add_argument parser [''--val_file''] None (Store TStr)
                     (StrV (os_path_join root_dir ''data/clean_val.txt'')) None;
          parser = add_argument parser [''--test_file''] None (Store TStr)
                     (StrV (os_path_join root_dir ''data/clean_test.txt'')) None;
          parser = add_argument parser [''--epochs''] None (Store TInt) (IntV 10) None;
          parser = add_argument parser [''--seed''] None (Store TInt) NoneV None
      in parser)"

text \<open>
  \<open>get_args(model)\<close>: \<open>model\<close> is the class whose static method adds the model's
  arguments, \<open>cwd\<close> is the value of \<open>os.getcwd()\<close>.
\<close>

definition get_args :: "(parser \<Rightarrow> string \<Rightarrow> parser) \<Rightarrow> string \<Rightarrow> parser" where
  "get_args model cwd =
     (let parent_parser = HyperOptArgumentParser False [];
          root_dir = cwd;
          parent_parser = add_argument parent_parser [''--mode''] None (Store TStr)
                            (StrV ''default'') (Some [StrV ''default'', StrV ''hparams_search'']);
          parent_parser = add_argument parent_parser [''--save-path''] None (Store TStr)
                            (StrV (os_path_join root_dir ''logs'')) None;
          parent_parser = add_argument parent_parser [''--gpus''] None (Store TInt) (IntV 0) None;
          parent_parser = add_argument parent_parser [''--distributed-backend''] None (Store TStr)
                            (StrV ''dp'') (Some [StrV ''dp'', StrV ''ddp'', StrV ''ddp2'']);
          parent_parser = add_argument parent_parser [''--use_16bit''] (Some ''use_16bit'') StoreTrue
                            (BoolV False) None;
          parent_parser = add_argument parent_parser [''--fast_dev_run''] (Some ''fast_dev_run'') StoreTrue
                            (BoolV False) None;
          parent_parser = add_argument parent_parser [''--track_grad_norm''] (Some ''track_grad_norm'')
                            StoreTrue (BoolV False) None;
          parent_parser = add_argument parent_parser [''--overfit_on_subset''] None (Store TFloat)
                            (FloatV 0) None;
          parser = model parent_parser root_dir
      in parser)"

section \<open>The Lightning module\<close>

text \<open>
  Tensors are values of an abstract type \<open>'t\<close>. The two sub-models, the functions
  \<open>metrics\<close>, \<open>f1_score\<close> and \<open>dataloader\<close> of the package's other modules, and the
  tensor operations of \<open>torch\<close> are parameters of the functions that call them.

  The attributes that the base class \<open>pl.LightningModule\<close> and the trainer manage:
  the flags of the attached trainer and \<open>use_ddp\<close>.
\<close>

record TrainerFlags =
  use_dp :: bool
  use_ddp2 :: bool

record LightningModule =
  trainer :: TrainerFlags
  use_ddp :: bool

record ('t, 'out) EmotionModel = LightningModule +
  hparams :: namespace
  emo_dict :: "int dict"
  sentence_embeds_model :: "'t \<Rightarrow> 't \<Rightarrow> 't"
  context_classifier_model :: "'t \<Rightarrow> 't option \<Rightarrow> 'out"

text \<open>
  \<open>EmotionModel.__init__\<close>: \<open>base\<close> is the state that \<open>super().__init__()\<close> establishes,
  \<open>sem_cls\<close> and \<open>ctx_cls\<close> are the constructors of the two sub-models.
\<close>

definition EmotionModel_init ::
  "(pyval \<Rightarrow> pyval \<Rightarrow> 't \<Rightarrow> 't \<Rightarrow> 't) \<Rightarrow>
   (pyval \<Rightarrow> pyval \<Rightarrow> int dict \<Rightarrow> pyval \<Rightarrow> 't \<Rightarrow> 't option \<Rightarrow> 'out) \<Rightarrow>
   LightningModule \<Rightarrow> namespace \<Rightarrow> error + ('t, 'out) EmotionModel" where
  "EmotionModel_init sem_cls ctx_cls base hp =
     (let emo = [(''others'', 0), (''sad'', 1), (''angry'', 2), (''happy'', 3)] in
      bindE (getattr hp ''projection_size'') (\<lambda>projection_size.
      bindE (getattr hp ''dropout'') (\<lambda>dropout.
      let sem = sem_cls projection_size dropout in
      bindE (getattr hp ''projection_size'') (\<lambda>projection_size'.
      bindE (getattr hp ''n_layers'') (\<lambda>n_layers.
      bindE (getattr hp ''dropout'') (\<lambda>dropout'.
      let ctx = ctx_cls projection_size' n_layers emo dropout' in
      Inr \<lparr>trainer = trainer base, use_ddp = use_ddp base, hparams = hp, emo_dict = emo,
           sentence_embeds_model = sem, context_classifier_model = ctx\<rparr>))))))"

definition forward :: "('t, 'out) EmotionModel \<Rightarrow> 't \<Rightarrow> 't \<Rightarrow> 't option \<Rightarrow> 'out" where
  "forward self input_ids attention_mask labels =
     (let sentence_embeds = sentence_embeds_model self input_ids attention_mask
      in context_classifier_model self sentence_embeds labels)"

subsection \<open>Validation step\<close>

text \<open>
  Attribute access on a dictionary, \<open>d.values\<close> or \<open>d.keys\<close>, gives a bound method;
  only calling it gives the view that can be iterated. Iterating the bound method
  itself raises \<open>TypeError\<close>.
\<close>

datatype 'a pyobject = BoundMethod string "'a list" | View "'a list"

definition dict_values_attr :: "'a dict \<Rightarrow> 'a pyobject" where
  "dict_values_attr d = BoundMethod ''values'' (map snd d)"

definition dict_keys_attr :: "'a dict \<Rightarrow> string pyobject" where
  "dict_keys_attr d = BoundMethod ''keys'' (map fst d)"

definition py_call :: "'a pyobject \<Rightarrow> error + 'a pyobject" where
  "py_call f = (case f of BoundMethod _ r \<Rightarrow> Inr (View r) | View _ \<Rightarrow> Inl TypeError)"

definition py_iter :: "'a pyobject \<Rightarrow> error + 'a list" where
  "py_iter x = (case x of BoundMethod _ _ \<Rightarrow> Inl TypeError | View xs \<Rightarrow> Inr xs)"

text \<open>
  \<open>EmotionModel.validation_step\<close>. With labels the classifier returns the pair
  \<open>(loss, logits)\<close>. \<open>unsqueeze\<close> is the tensor method of that name.
\<close>

definition validation_step ::
  "('t \<Rightarrow> 't \<Rightarrow> 't \<Rightarrow> 't dict) \<Rightarrow> ('t \<Rightarrow> nat \<Rightarrow> 't) \<Rightarrow> ('t, 't \<times> 't) EmotionModel \<Rightarrow>
   't \<times> 't \<times> 't \<Rightarrow> nat \<Rightarrow> error + 't dict" where
  "validation_step metrics unsqueeze self batch batch_idx =
     (case batch of (input_ids, attention_mask, labels) \<Rightarrow>
        (case forward self input_ids attention_mask (Some labels) of (loss, logits) \<Rightarrow>
           let scores_dict = metrics loss logits labels in
           if use_dp (trainer self) \<or> use_ddp2 (trainer self) then
             bindE (py_iter (dict_values_attr scores_dict)) (\<lambda>vs.
               let scores = map (\<lambda>score. unsqueeze score 0) vs in
               bindE (py_iter (dict_keys_attr scores_dict)) (\<lambda>ks.
                 Inr (foldl (\<lambda>d kv. setitem d (fst kv) (snd kv)) [] (zip ks scores))))
           else Inr scores_dict))"

subsection \<open>Aggregation at the end of validation\<close>

text \<open>
  The inner loop of \<open>validation_end\<close>: the running total of one metric over the
  outputs. \<open>dp\<close> is \<open>trainer.use_dp or trainer.use_ddp2\<close>; \<open>torch_sum\<close> and \<open>torch_mean\<close>
  reduce the per-device values in that mode (the debugging \<open>print\<close> of the tensor's
  shape there does not change the result and is left out). Tensor arithmetic is
  idealised: \<open>'t\<close> is a field.
\<close>

fun metric_total_loop ::
  "bool \<Rightarrow> ('t \<Rightarrow> 't) \<Rightarrow> ('t \<Rightarrow> 't) \<Rightarrow> string \<Rightarrow> ('t::field) dict list \<Rightarrow> 't \<Rightarrow> error + 't" where
  "metric_total_loop dp torch_sum torch_mean metric_name [] metric_total = Inr metric_total"
| "metric_total_loop dp torch_sum torch_mean metric_name (output # rest) metric_total =
     bindE (getitem output metric_name) (\<lambda>metric_value.
       let metric_value =
             (if dp then
                (if metric_name \<in> set [''tp'', ''fp'', ''fn''] then torch_sum metric_value
                 else torch_mean metric_value)
              else metric_value)
       in metric_total_loop dp torch_sum torch_mean metric_name rest (metric_total + metric_value))"

text \<open>The outer loop: one entry of \<open>tqdm_dict\<close> per metric name.\<close>

fun metric_names_loop ::
  "bool \<Rightarrow> ('t \<Rightarrow> 't) \<Rightarrow> ('t \<Rightarrow> 't) \<Rightarrow> ('t::field) dict list \<Rightarrow> string list \<Rightarrow> 't dict \<Rightarrow> error + 't dict" where
  "metric_names_loop dp torch_sum torch_mean outputs [] tqdm_dict = Inr tqdm_dict"
| "metric_names_loop dp torch_sum torch_mean outputs (metric_name # names) tqdm_dict =
     bindE (metric_total_loop dp torch_sum torch_mean metric_name outputs 0) (\<lambda>metric_total.
       metric_names_loop dp torch_sum torch_mean outputs names
         (if metric_name \<in> set [''tp'', ''fp'', ''fn'']
          then setitem tqdm_dict metric_name metric_total
          else setitem tqdm_dict metric_name (metric_total / of_nat (length outputs))))"

text \<open>
  The returned dictionary holds the metrics dictionary under \<open>progress_bar\<close> and under
  \<open>log\<close>, and the validation loss under \<open>val_loss\<close>.
\<close>

datatype 't entry = Metrics "'t dict" | Scalar 't

definition validation_end ::
  "('t \<Rightarrow> 't \<Rightarrow> 't \<Rightarrow> 't dict) \<Rightarrow> ('t \<Rightarrow> 't) \<Rightarrow> ('t \<Rightarrow> 't) \<Rightarrow> ('t::field, 'out) EmotionModel \<Rightarrow>
   't dict list \<Rightarrow> error + 't entry dict" where
  "validation_end f1_score torch_sum torch_mean self outputs =
     (case outputs of
        [] \<Rightarrow> Inl IndexError
      | output0 # _ \<Rightarrow>
          bindE (bindE (py_call (dict_keys_attr output0)) py_iter) (\<lambda>names.
          bindE (metric_names_loop (use_dp (trainer self) \<or> use_ddp2 (trainer self))
                   torch_sum torch_mean outputs names []) (\<lambda>tqdm_dict.
          bindE (getitem tqdm_dict ''tp'') (\<lambda>tp.
          bindE (getitem tqdm_dict ''fp'') (\<lambda>fp.
          bindE (getitem tqdm_dict ''fn'') (\<lambda>fn.
          let prec_rec_f1 = f1_score tp fp fn;
              tqdm_dict = dict_update tqdm_dict prec_rec_f1 in
          bindE (getitem tqdm_dict ''val_loss'') (\<lambda>val_loss.
          Inr [(''progress_bar'', Metrics tqdm_dict), (''log'', Metrics tqdm_dict),
               (''val_loss'', Scalar val_loss)])))))))"

subsection \<open>Data loaders\<close>

definition train_dataloader ::
  "(pyval \<Rightarrow> pyval \<Rightarrow> pyval \<Rightarrow> int dict \<Rightarrow> bool \<Rightarrow> 'dl) \<Rightarrow> ('t, 'out) EmotionModel \<Rightarrow> error + 'dl" where
  "train_dataloader dataloader self =
     bindE (getattr (hparams self) ''train_file'') (\<lambda>train_file.
     bindE (getattr (hparams self) ''max_seq_len'') (\<lambda>max_seq_len.
     bindE (getattr (hparams self) ''bs'') (\<lambda>bs.
     Inr (dataloader train_file max_seq_len bs (emo_dict self) (use_ddp self)))))"

definition val_dataloader ::
  "(pyval \<Rightarrow> pyval \<Rightarrow> pyval \<Rightarrow> int dict \<Rightarrow> bool \<Rightarrow> 'dl) \<Rightarrow> ('t, 'out) EmotionModel \<Rightarrow> error + 'dl" where
  "val_dataloader dataloader self =
     bindE (getattr (hparams self) ''val_file'') (\<lambda>val_file.
     bindE (getattr (hparams self) ''max_seq_len'') (\<lambda>max_seq_len.
     bindE (getattr (hparams self) ''bs'') (\<lambda>bs.
     Inr (dataloader val_file max_seq_len bs (emo_dict self) (use_ddp self)))))"

definition test_dataloader ::
  "(pyval \<Rightarrow> pyval \<Rightarrow> pyval \<Rightarrow> int dict \<Rightarrow> bool \<Rightarrow> 'dl) \<Rightarrow> ('t, 'out) EmotionModel \<Rightarrow> error + 'dl" where
  "test_dataloader dataloader self =
     bindE (getattr (hparams self) ''test_file'') (\<lambda>test_file.
     bindE (getattr (hparams self) ''max_seq_len'') (\<lambda>max_seq_len.
     bindE (getattr (hparams self) ''bs'') (\<lambda>bs.
     Inr (dataloader test_file max_seq_len bs (emo_dict self) (use_ddp self)))))"

subsection \<open>The predicted label\<close>





section \<open>Training: \<open>main\<close> and the command-line script\<close>

text \<open>
  The names bound in the exported module: its imports and its own definitions. A name
  that is not among them (and is no builtin) raises \<open>NameError\<close> when it is evaluated.
\<close>

definition core_globals :: "string list" where
  "core_globals =
     [''logging'', ''os'', ''torch'', ''pl'', ''HyperOptArgumentParser'', ''dataloader'',
      ''sentence_embeds_model'', ''context_classifier_model'', ''metrics'', ''f1_score'',
      ''EmotionModel'', ''get_args'', ''main'']"

definition resolve :: "string \<Rightarrow> error + unit" where
  "resolve name = (if name \<in> set core_globals then Inr () else Inl (NameError name))"

text \<open>The state of the random number generators that \<open>main\<close> sets.\<close>

record rng_state =
  python_seed :: "pyval option"
  torch_seed :: "pyval option"
  cudnn_deterministic :: bool

text \<open>The keyword arguments of \<open>pl.callbacks.ModelCheckpoint\<close> and of \<open>pl.Trainer\<close>.\<close>

record ModelCheckpoint =
  filepath :: string
  save_best_only :: bool
  verbose :: bool
  monitor :: string
  mode :: string
  prefix :: string

record Trainer =
  default_save_path :: pyval
  gpus :: pyval
  distributed_backend :: pyval
  use_amp :: pyval
  checkpoint_callback :: ModelCheckpoint
  max_nb_epochs :: pyval
  weights_summary :: string
  fast_dev_run :: pyval
  track_grad_norm :: int
  overfit_pct :: pyval

text \<open>
  What one call of \<open>main\<close> does: the generator state it leaves, the trainer and the
  model of its \<open>trainer.fit(model)\<close>, and the value it returns to its caller
  (\<open>main\<close> has no \<open>return\<close> statement).
\<close>

record ('t, 'out) training_run =
  rng :: rng_state
  fit_trainer :: Trainer
  fit_model :: "('t, 'out) EmotionModel"
  returned :: pyval

definition truthy :: "pyval \<Rightarrow> bool" where
  "truthy v =
     (case v of
        NoneV \<Rightarrow> False
      | BoolV b \<Rightarrow> b
      | IntV n \<Rightarrow> n \<noteq> 0
      | FloatV r \<Rightarrow> r \<noteq> 0
      | StrV s \<Rightarrow> s \<noteq> []
      | MethodV _ \<Rightarrow> True)"

definition path_join :: "pyval \<Rightarrow> string \<Rightarrow> error + string" where
  "path_join a b = (case a of StrV s \<Rightarrow> Inr (os_path_join s b) | _ \<Rightarrow> Inl TypeError)"

definition main ::
  "(pyval \<Rightarrow> pyval \<Rightarrow> 't \<Rightarrow> 't \<Rightarrow> 't) \<Rightarrow>
   (pyval \<Rightarrow> pyval \<Rightarrow> int dict \<Rightarrow> pyval \<Rightarrow> 't \<Rightarrow> 't option \<Rightarrow> 'out) \<Rightarrow>
   LightningModule \<Rightarrow> rng_state \<Rightarrow> namespace \<Rightarrow> error + ('t, 'out) training_run" where
  "main sem_cls ctx_cls base rng0 hp =
     bindE (resolve ''EmotionModel'') (\<lambda>_.
     bindE (EmotionModel_init sem_cls ctx_cls base hp) (\<lambda>model.
     bindE (getattr hp ''seed'') (\<lambda>seed.
     bindE (if seed \<noteq> NoneV then
              bindE (resolve ''random'') (\<lambda>_.
              bindE (getattr hp ''seed'') (\<lambda>seed1.
              bindE (resolve ''torch'') (\<lambda>_.
              bindE (getattr hp ''seed'') (\<lambda>seed2.
              bindE (resolve ''torch'') (\<lambda>_.
              Inr (rng0\<lparr>python_seed := Some seed1, torch_seed := Some seed2,
                        cudnn_deterministic := True\<rparr>))))))
            else Inr rng0) (\<lambda>rng1.
     bindE (resolve ''pl'') (\<lambda>_.
     bindE (resolve ''os'') (\<lambda>_.
     bindE (getattr hp ''save_path'') (\<lambda>save_path.
     bindE (path_join save_path ''model_checkpoints'') (\<lambda>ckpt_path.
     let checkpoint = \<lparr>filepath = ckpt_path, save_best_only = True, verbose = True,
                        monitor = ''f1_score'', mode = ''max'', prefix = []\<rparr> in
     bindE (resolve ''pl'') (\<lambda>_.
     bindE (getattr hp ''save_path'') (\<lambda>save_path'.
     bindE (getattr hp ''gpus'') (\<lambda>gpus'.
     bindE (getattr hp ''distributed_backend'') (\<lambda>backend.
     bindE (getattr hp ''use_16bit'') (\<lambda>use_16bit.
     bindE (getattr hp ''epochs'') (\<lambda>epochs.
     bindE (getattr hp ''fast_dev_run'') (\<lambda>fast.
     bindE (getattr hp ''track_grad_norm'') (\<lambda>track.
     bindE (getattr hp ''overfit_on_subset'') (\<lambda>overfit.
     let tr = \<lparr>default_save_path = save_path', gpus = gpus', distributed_backend = backend,
                use_amp = use_16bit, checkpoint_callback = checkpoint, max_nb_epochs = epochs,
                weights_summary = ''top'', fast_dev_run = fast,
                track_grad_norm = (if truthy track then 2 else - 1), overfit_pct = overfit\<rparr>
     in Inr \<lparr>rng = rng1, fit_trainer = tr, fit_model = model, returned = NoneV\<rparr>)))))))))))))))))"

subsection \<open>The script \<open>main.py\<close>\<close>

text \<open>
  The searches \<open>optimize_parallel_cpu\<close> and \<open>optimize_parallel_gpu\<close> are methods of the
  argument-parser library, reached as attributes of the parsed namespace. The script
  passes the training function by position and everything else by keyword. The
  methods the script calls have these parameters in the library:
  \<^item> \<open>optimize_parallel_cpu(train_function, nb_trials, nb_workers=4)\<close>,
  \<^item> \<open>optimize_parallel_gpu(train_function, gpu_ids, max_nb_trials=None)\<close>.
  As in every Python call, a keyword that is not a parameter of the method, a parameter
  given twice, or a parameter without default that is left out raises \<open>TypeError\<close>;
  so does calling a value that is not a method. A call that binds is recorded with the
  method's name, the training function and the keyword arguments. The script does
  nothing with the value of the call.
\<close>

datatype argument = IntArg int | ListArg "int list"

record method_sig =
  parameters :: "string list"
  required :: nat

definition method_signature :: "string \<Rightarrow> method_sig option" where
  "method_signature name =
     (if name = ''optimize_parallel_cpu''
      then Some \<lparr>parameters = [''train_function'', ''nb_trials'', ''nb_workers''], required = 2\<rparr>
      else if name = ''optimize_parallel_gpu''
      then Some \<lparr>parameters = [''train_function'', ''gpu_ids'', ''max_nb_trials''], required = 2\<rparr>
      else None)"

definition binds :: "method_sig \<Rightarrow> nat \<Rightarrow> string list \<Rightarrow> bool" where
  "binds sg n_positional keywords =
     (n_positional \<le> length (parameters sg) \<and> distinct keywords \<and>
      list_all (\<lambda>k. k \<in> set (drop n_positional (parameters sg))) keywords \<and>
      list_all (\<lambda>p. p \<in> set (take n_positional (parameters sg)) \<or> p \<in> set keywords)
        (take (required sg) (parameters sg)))"

datatype 'f library_call = LibraryCall string 'f "(string \<times> argument) list"

definition call_method :: "pyval \<Rightarrow> 'f \<Rightarrow> (string \<times> argument) list \<Rightarrow> error + 'f library_call" where
  "call_method m train_function kwargs =
     (case m of
        MethodV name \<Rightarrow>
          (case method_signature name of
             None \<Rightarrow> Inl TypeError
           | Some sg \<Rightarrow>
               if binds sg 1 (map fst kwargs) then Inr (LibraryCall name train_function kwargs)
               else Inl TypeError)
      | _ \<Rightarrow> Inl TypeError)"

datatype ('r, 'f) outcome = Trained 'r | Searched "'f library_call" | NoCall

text \<open>Python's \<open>==\<close>: numbers (booleans included) compare by value, all else structurally.\<close>

definition num_of :: "pyval \<Rightarrow> real option" where
  "num_of v =
     (case v of
        BoolV b \<Rightarrow> Some (if b then 1 else 0)
      | IntV n \<Rightarrow> Some (real_of_int n)
      | FloatV r \<Rightarrow> Some r
      | _ \<Rightarrow> None)"

definition py_eq :: "pyval \<Rightarrow> pyval \<Rightarrow> bool" where
  "py_eq a b =
     (case num_of a of
        Some x \<Rightarrow> (case num_of b of Some y \<Rightarrow> x = y | None \<Rightarrow> False)
      | None \<Rightarrow> a = b)"

definition py_range :: "pyval \<Rightarrow> error + int list" where
  "py_range v =
     (case v of
        IntV n \<Rightarrow> Inr (map int [0..<nat n])
      | BoolV b \<Rightarrow> Inr (map int [0..<(if b then 1 else 0)])
      | _ \<Rightarrow> Inl TypeError)"

definition main_py ::
  "(pyval \<Rightarrow> pyval \<Rightarrow> 't \<Rightarrow> 't \<Rightarrow> 't) \<Rightarrow>
   (pyval \<Rightarrow> pyval \<Rightarrow> int dict \<Rightarrow> pyval \<Rightarrow> 't \<Rightarrow> 't option \<Rightarrow> 'out) \<Rightarrow>
   LightningModule \<Rightarrow> rng_state \<Rightarrow> string \<Rightarrow> string list \<Rightarrow>
   error + (('t, 'out) training_run, namespace \<Rightarrow> error + ('t, 'out) training_run) outcome" where
  "main_py sem_cls ctx_cls base rng0 cwd argv =
     (let hp_parser = get_args add_model_specific_args cwd in
      bindE (parse_args hp_parser argv) (\<lambda>hp.
      bindE (getattr hp ''mode'') (\<lambda>m.
      if py_eq m (StrV ''default'') then
        bindE (main sem_cls ctx_cls base rng0 hp) (\<lambda>run. Inr (Trained run))
      else
        bindE (getattr hp ''mode'') (\<lambda>m'.
        if py_eq m' (StrV ''hparams_search'') then
          bindE (getattr hp ''gpus'') (\<lambda>g.
          if py_eq g (IntV 0) then
            bindE (getattr hp ''optimize_parallel_cpu'') (\<lambda>f.
            bindE (call_method f (main sem_cls ctx_cls base rng0)
                     [(''nb_trials'', IntArg 20), (''nb_workers'', IntArg 1)]) (\<lambda>call.
            Inr (Searched call)))
          else
            bindE (getattr hp ''optimize_parallel_gpu'') (\<lambda>f.
            bindE (getattr hp ''gpus'') (\<lambda>g'.
            bindE (py_range g') (\<lambda>ids.
            bindE (call_method f (main sem_cls ctx_cls base rng0)
                     [(''nb_trials'', IntArg 20), (''gpus'', ListArg ids)]) (\<lambda>call.
            Inr (Searched call))))))
        else Inr NoCall))))"

section \<open>Notions used in the statements\<close>

text \<open>
  The sum and the arithmetic mean of one metric over the outputs of the validation
  steps, as the statements about \<open>validation_end\<close> name them.
\<close>

definition metric_sum :: "('t::field) dict list \<Rightarrow> string \<Rightarrow> 't" where
  "metric_sum outputs name = sum_list (map (\<lambda>output. the (map_of output name)) outputs)"

definition metric_mean :: "('t::field) dict list \<Rightarrow> string \<Rightarrow> 't" where
  "metric_mean outputs name = metric_sum outputs name / of_nat (length outputs)"

text \<open>A hyperparameter value that is a float in the closed interval from 0 to 1.\<close>

definition in_unit_interval :: "pyval \<Rightarrow> bool" where
  "in_unit_interval v = (case v of FloatV r \<Rightarrow> 0 \<le> r \<and> r \<le> 1 | _ \<Rightarrow> False)"

text \<open>
  The values a parser can leave in an attribute: the default of an argument with that
  destination, \<open>True\<close> for a \<open>store_true\<close> argument, or a converted command-line value
  that passed the argument's \<open>choices\<close>. A namespace honours a parser when all its
  entries are of this kind.
\<close>

definition admits :: "parser \<Rightarrow> string \<Rightarrow> pyval \<Rightarrow> bool" where
  "admits p k v =
     (\<exists>s \<in> set p. dest s = k \<and>
        (default_value s = Some v \<or>
         (action s = StoreTrue \<and> v = BoolV True) \<or>
         (\<exists>ty str. action s = Store ty \<and> convert ty str = Some v \<and>
                   (case choices s of None \<Rightarrow> True | Some cs \<Rightarrow> v \<in> set cs))))"

definition honours :: "parser \<Rightarrow> namespace \<Rightarrow> bool" where
  "honours p ns = (\<forall>k v. map_of ns k = Some v \<longrightarrow> admits p k v)"

subsection \<open>Example data\<close>

text \<open>
  A module state as the base class leaves it in single-process mode, a fresh generator
  state, two sub-model constructors and an \<open>f1_score\<close> over real-valued tensors, and
  the outputs of two validation steps. They instantiate the statements below.
\<close>

definition example_base :: LightningModule where
  "example_base = \<lparr>trainer = \<lparr>use_dp = False, use_ddp2 = False\<rparr>, use_ddp = False\<rparr>"

definition example_rng :: rng_state where
  "example_rng = \<lparr>python_seed = None, torch_seed = None, cudnn_deterministic = False\<rparr>"

definition example_sem :: "pyval \<Rightarrow> pyval \<Rightarrow> real \<Rightarrow> real \<Rightarrow> real" where
  "example_sem projection_size dropout input_ids attention_mask = input_ids * attention_mask"

definition example_ctx ::
  "pyval \<Rightarrow> pyval \<Rightarrow> int dict \<Rightarrow> pyval \<Rightarrow> real \<Rightarrow> real option \<Rightarrow> real \<times> real" where
  "example_ctx projection_size n_layers emo dropout sentence_embeds labels =
     (case labels of None \<Rightarrow> (0, sentence_embeds) | Some y \<Rightarrow> ((sentence_embeds - y)\<^sup>2, sentence_embeds))"


definition example_f1_score :: "real \<Rightarrow> real \<Rightarrow> real \<Rightarrow> real dict" where
  "example_f1_score tp fp fn =
     [(''precision'', tp / (tp + fp)), (''recall'', tp / (tp + fn)),
      (''f1_score'', 2 * (tp / (tp + fp) * (tp / (tp + fn))) / (tp / (tp + fp) + tp / (tp + fn)))]"

definition example_outputs :: "real dict list" where
  "example_outputs =
     [[(''val_loss'', 2), (''val_acc'', 5 / 100), (''tp'', 1), (''fp'', 17), (''fn'', 2)],
      [(''val_loss'', 216 / 100), (''val_acc'', 1 / 10), (''tp'', 2), (''fp'', 20), (''fn'', 3)]]"

definition example_self :: "(real, real \<times> real) EmotionModel" where
  "example_self =
     \<lparr>trainer = \<lparr>use_dp = False, use_ddp2 = False\<rparr>, use_ddp = False,
      hparams = [(''train_file'', StrV ''data/clean_train.txt''),
                 (''val_file'', StrV ''data/clean_val.txt''),
                 (''test_file'', StrV ''data/clean_test.txt''),
                 (''max_seq_len'', IntV 10), (''bs'', IntV 40)],
      emo_dict = [(''others'', 0), (''sad'', 1), (''angry'', 2), (''happy'', 3)],
      sentence_embeds_model = example_sem (IntV 100) (FloatV (1 / 10)),
      context_classifier_model =
        example_ctx (IntV 100) (IntV 1) [(''others'', 0), (''sad'', 1), (''angry'', 2), (''happy'', 3)]
          (FloatV (1 / 10))\<rparr>"

section \<open>Auxiliary facts about dictionaries\<close>

lemma map_of_setitem: "map_of (setitem d k v) = (map_of d)(k \<mapsto> v)"
  by (induction d) (auto simp: fun_eq_iff)

lemma keys_setitem: "set (keys (setitem d k v)) = insert k (set (keys d))"
  by (induction d) (auto simp: keys_def)

lemma map_of_dict_update:
  "distinct (keys e) \<Longrightarrow> map_of (dict_update d e) = map_of d ++ map_of e"
proof (induction e arbitrary: d)
  case Nil
  then show ?case by simp
next
  case (Cons kv kvs)
  obtain k v where kv: "kv = (k, v)" by (cases kv)
  from Cons.prems have notin: "k \<notin> fst ` set kvs" and dist: "distinct (keys kvs)"
    by (auto simp: keys_def kv)
  have "map_of (dict_update d (kv # kvs)) = map_of (setitem d k v) ++ map_of kvs"
    using Cons.IH[OF dist, of "setitem d k v"] by (simp add: kv)
  also have "\<dots> = (map_of d)(k \<mapsto> v) ++ map_of kvs"
    by (simp only: map_of_setitem)
  also have "\<dots> = map_of d ++ map_of (kv # kvs)"
  proof -
    have none: "map_of kvs k = None"
      using notin by (simp add: map_of_eq_None_iff)
    show ?thesis
      by (rule ext) (simp add: map_add_def kv none split: option.splits)
  qed
  finally show ?case .
qed

lemma keys_dict_update: "set (keys (dict_update d e)) = set (keys d) \<union> set (keys e)"
  by (induction e arbitrary: d) (auto simp: keys_setitem, auto simp: keys_def)

lemma getitem_present:
  "name \<in> set (keys d) \<Longrightarrow> getitem d name = Inr (the (map_of d name))"
  by (auto simp: getitem_def keys_def map_of_eq_None_iff split: option.splits)

lemma bindE_Inr: "bindE m f = Inr r \<Longrightarrow> \<exists>x. m = Inr x \<and> f x = Inr r"
  by (cases m) (simp_all add: bindE_def)

section \<open>The loops of \<open>validation_end\<close> in single-process mode\<close>

lemma metric_total_loop_single:
  "\<forall>out \<in> set outputs. name \<in> set (keys out) \<Longrightarrow>
   metric_total_loop False torch_sum torch_mean name outputs acc = Inr (acc + metric_sum outputs name)"
proof (induction outputs arbitrary: acc)
  case Nil
  then show ?case by (simp add: metric_sum_def)
next
  case (Cons out1 rest)
  then show ?case
    by (simp add: getitem_present bindE_def metric_sum_def add.assoc)
qed

lemma metric_names_loop_single:
  "\<forall>out \<in> set outputs. set names \<subseteq> set (keys out) \<Longrightarrow>
   \<exists>d'. metric_names_loop False torch_sum torch_mean outputs names d = Inr d' \<and>
        map_of d' = (\<lambda>k. if k \<in> set names
                          then Some (if k \<in> {''tp'', ''fp'', ''fn''} then metric_sum outputs k
                                     else metric_mean outputs k)
                          else map_of d k) \<and>
        set (keys d') = set (keys d) \<union> set names"
proof (induction names arbitrary: d)
  case Nil
  then show ?case by simp
next
  case (Cons name names)
  have here: "\<forall>out \<in> set outputs. name \<in> set (keys out)"
    and rest: "\<forall>out \<in> set outputs. set names \<subseteq> set (keys out)"
    using Cons.prems by auto
  let ?v = "if name \<in> {''tp'', ''fp'', ''fn''} then metric_sum outputs name else metric_mean outputs name"
  have step: "metric_names_loop False torch_sum torch_mean outputs (name # names) d =
              metric_names_loop False torch_sum torch_mean outputs names (setitem d name ?v)"
    using metric_total_loop_single[OF here, of torch_sum torch_mean 0]
    by (auto simp: bindE_def metric_mean_def)
  from Cons.IH[OF rest, of "setitem d name ?v"] obtain d' where
    d': "metric_names_loop False torch_sum torch_mean outputs names (setitem d name ?v) = Inr d'"
      "map_of d' = (\<lambda>k. if k \<in> set names
                          then Some (if k \<in> {''tp'', ''fp'', ''fn''} then metric_sum outputs k
                                     else metric_mean outputs k)
                          else map_of (setitem d name ?v) k)"
      "set (keys d') = set (keys (setitem d name ?v)) \<union> set names"
    by blast
  show ?case
  proof (intro exI[of _ d'] conjI)
    show "metric_names_loop False torch_sum torch_mean outputs (name # names) d = Inr d'"
      using step d'(1) by simp
    show "map_of d' = (\<lambda>k. if k \<in> set (name # names)
                          then Some (if k \<in> {''tp'', ''fp'', ''fn''} then metric_sum outputs k
                                     else metric_mean outputs k)
                          else map_of d k)"
      unfolding d'(2) by (rule ext) (simp add: map_of_setitem)
    show "set (keys d') = set (keys d) \<union> set (name # names)"
      unfolding d'(3) by (auto simp: keys_setitem)
  qed
qed

section \<open>Aggregation of the validation metrics\<close>

text \<open>
  Claim C1. In single-process mode (neither \<open>use_dp\<close> nor \<open>use_ddp2\<close>), for a non-empty
  list of validation-step outputs that all carry the metrics of the first one, among
  them \<open>tp\<close>, \<open>fp\<close>, \<open>fn\<close> and \<open>val_loss\<close>, and an \<open>f1_score\<close> whose entries are new keys,
  \<open>validation_end\<close> returns a dictionary that holds one metrics dictionary under
  \<open>progress_bar\<close> and \<open>log\<close>. In it \<open>tp\<close>, \<open>fp\<close> and \<open>fn\<close> are the sums of the per-step
  values, every other metric of the outputs is the mean of its per-step values (the total
  divided by the number of outputs), and the remaining entries are those of \<open>f1_score\<close>
  applied to the summed \<open>tp\<close>, \<open>fp\<close> and \<open>fn\<close>. The entry \<open>val_loss\<close> of the returned
  dictionary is the mean validation loss.
\<close>

theorem validation_end_aggregates:
  fixes outputs :: "('t::field) dict list"
    and f1_score :: "'t \<Rightarrow> 't \<Rightarrow> 't \<Rightarrow> 't dict"
  defines "prec_rec_f1 \<equiv> f1_score (metric_sum outputs ''tp'') (metric_sum outputs ''fp'')
                                     (metric_sum outputs ''fn'')"
  assumes single: "\<not> use_dp (trainer self)" "\<not> use_ddp2 (trainer self)"
    and nonempty: "outputs \<noteq> []"
    and same_keys: "\<forall>out \<in> set outputs. set (keys (hd outputs)) \<subseteq> set (keys out)"
    and metrics_keys: "{''tp'', ''fp'', ''fn'', ''val_loss''} \<subseteq> set (keys (hd outputs))"
    and f1_keys: "distinct (keys prec_rec_f1)" "set (keys prec_rec_f1) \<inter> set (keys (hd outputs)) = {}"
  shows "\<exists>tqdm_dict.
           validation_end f1_score torch_sum torch_mean self outputs =
             Inr [(''progress_bar'', Metrics tqdm_dict), (''log'', Metrics tqdm_dict),
                  (''val_loss'', Scalar (metric_mean outputs ''val_loss''))] \<and>
           map_of tqdm_dict ''tp'' = Some (metric_sum outputs ''tp'') \<and>
           map_of tqdm_dict ''fp'' = Some (metric_sum outputs ''fp'') \<and>
           map_of tqdm_dict ''fn'' = Some (metric_sum outputs ''fn'') \<and>
           (\<forall>name \<in> set (keys (hd outputs)) - {''tp'', ''fp'', ''fn''}.
              map_of tqdm_dict name = Some (metric_mean outputs name)) \<and>
           (\<forall>name \<in> set (keys prec_rec_f1). map_of tqdm_dict name = map_of prec_rec_f1 name) \<and>
           set (keys tqdm_dict) = set (keys (hd outputs)) \<union> set (keys prec_rec_f1)"
proof -
  obtain output0 rest where outs: "outputs = output0 # rest"
    using nonempty by (cases outputs) auto
  let ?names = "keys output0"
  have all: "\<forall>out \<in> set outputs. set ?names \<subseteq> set (keys out)"
    using same_keys by (simp add: outs)
  from metric_names_loop_single[OF all, of torch_sum torch_mean "[]"] obtain d where
    d0: "metric_names_loop False torch_sum torch_mean outputs ?names [] = Inr d \<and>
         map_of d = (\<lambda>k. if k \<in> set ?names
                          then Some (if k \<in> {''tp'', ''fp'', ''fn''} then metric_sum outputs k
                                     else metric_mean outputs k)
                          else map_of ([] :: 't dict) k) \<and>
         set (keys d) = set (keys ([] :: 't dict)) \<union> set ?names"
    by blast
  have d: "metric_names_loop False torch_sum torch_mean outputs ?names [] = Inr d"
       "map_of d = (\<lambda>k. if k \<in> set ?names
                          then Some (if k \<in> {''tp'', ''fp'', ''fn''} then metric_sum outputs k
                                     else metric_mean outputs k)
                          else None)"
       "set (keys d) = set ?names"
    using d0 by (simp_all add: keys_def cong: if_cong)
  have in_names: "''tp'' \<in> set ?names" "''fp'' \<in> set ?names" "''fn'' \<in> set ?names"
    "''val_loss'' \<in> set ?names"
    using metrics_keys by (auto simp: outs)
  have tp: "getitem d ''tp'' = Inr (metric_sum outputs ''tp'')"
    and fp: "getitem d ''fp'' = Inr (metric_sum outputs ''fp'')"
    and fn: "getitem d ''fn'' = Inr (metric_sum outputs ''fn'')"
    using in_names by (simp_all add: getitem_def d(2))
  let ?t = "dict_update d prec_rec_f1"
  have map_t: "map_of ?t = map_of d ++ map_of prec_rec_f1"
    by (rule map_of_dict_update[OF f1_keys(1)])
  have disjoint: "\<And>k. k \<in> set ?names \<Longrightarrow> map_of prec_rec_f1 k = None"
    using f1_keys(2) by (auto simp: outs keys_def map_of_eq_None_iff)
  have old: "\<And>k. k \<in> set ?names \<Longrightarrow> map_of ?t k = map_of d k"
    using disjoint by (simp add: map_t map_add_def)
  have new: "\<And>k. k \<in> set (keys prec_rec_f1) \<Longrightarrow> map_of ?t k = map_of prec_rec_f1 k"
    by (auto simp: map_t map_add_def keys_def map_of_eq_None_iff split: option.splits)
  have vl: "getitem ?t ''val_loss'' = Inr (metric_mean outputs ''val_loss'')"
    using in_names(4) by (simp add: getitem_def old d(2))
  have run: "validation_end f1_score torch_sum torch_mean self outputs =
             Inr [(''progress_bar'', Metrics ?t), (''log'', Metrics ?t),
                  (''val_loss'', Scalar (metric_mean outputs ''val_loss''))]"
    using single d(1) tp fp fn vl
    by (simp add: validation_end_def outs bindE_def py_call_def py_iter_def dict_keys_attr_def
        keys_def prec_rec_f1_def Let_def)
  show ?thesis
  proof (intro exI[of _ ?t] conjI ballI)
    show "validation_end f1_score torch_sum torch_mean self outputs =
             Inr [(''progress_bar'', Metrics ?t), (''log'', Metrics ?t),
                  (''val_loss'', Scalar (metric_mean outputs ''val_loss''))]"
      by (rule run)
    show "map_of ?t ''tp'' = Some (metric_sum outputs ''tp'')"
      using in_names(1) by (simp add: old d(2))
    show "map_of ?t ''fp'' = Some (metric_sum outputs ''fp'')"
      using in_names(2) by (simp add: old d(2))
    show "map_of ?t ''fn'' = Some (metric_sum outputs ''fn'')"
      using in_names(3) by (simp add: old d(2))
    show "map_of ?t name = Some (metric_mean outputs name)"
      if "name \<in> set (keys (hd outputs)) - {''tp'', ''fp'', ''fn''}" for name
      using that by (simp add: outs old d(2))
    show "map_of ?t name = map_of prec_rec_f1 name" if "name \<in> set (keys prec_rec_f1)" for name
      using that by (rule new)
    show "set (keys ?t) = set (keys (hd outputs)) \<union> set (keys prec_rec_f1)"
      by (simp add: keys_dict_update d(3) outs)
  qed
qed

text \<open>
  The statement at the two example outputs: the counts add up to 3, 37 and 5, the
  loss and the accuracy average to 2.08 and 0.075, and precision, recall and F1 come
  out as 0.075, 0.375 and 0.125.
\<close>

theorem validation_end_aggregates_witness:
  "\<exists>tqdm_dict.
     validation_end example_f1_score id id example_self example_outputs =
       Inr [(''progress_bar'', Metrics tqdm_dict), (''log'', Metrics tqdm_dict),
            (''val_loss'', Scalar (208 / 100))] \<and>
     map_of tqdm_dict ''tp'' = Some 3 \<and>
     map_of tqdm_dict ''fp'' = Some 37 \<and>
     map_of tqdm_dict ''fn'' = Some 5 \<and>
     map_of tqdm_dict ''val_acc'' = Some (75 / 1000) \<and>
     map_of tqdm_dict ''val_loss'' = Some (208 / 100) \<and>
     map_of tqdm_dict ''precision'' = Some (75 / 1000) \<and>
     map_of tqdm_dict ''recall'' = Some (375 / 1000) \<and>
     map_of tqdm_dict ''f1_score'' = Some (125 / 1000)"
proof -
  have sums: "metric_sum example_outputs ''tp'' = 3" "metric_sum example_outputs ''fp'' = 37"
    "metric_sum example_outputs ''fn'' = 5"
    by (simp_all add: metric_sum_def example_outputs_def)
  have means: "metric_mean example_outputs ''val_loss'' = 208 / 100"
    "metric_mean example_outputs ''val_acc'' = 75 / 1000"
    by (simp_all add: metric_mean_def metric_sum_def example_outputs_def)
  have f1: "example_f1_score 3 37 5 =
              [(''precision'', 75 / 1000), (''recall'', 375 / 1000), (''f1_score'', 125 / 1000)]"
    by (simp add: example_f1_score_def)
  have h1: "\<not> use_dp (trainer example_self)" and h2: "\<not> use_ddp2 (trainer example_self)"
    by (simp_all add: example_self_def)
  have h3: "example_outputs \<noteq> []"
    by (simp add: example_outputs_def)
  have h4: "\<forall>out \<in> set example_outputs. set (keys (hd example_outputs)) \<subseteq> set (keys out)"
    by (simp add: example_outputs_def keys_def)
  have h5: "{''tp'', ''fp'', ''fn'', ''val_loss''} \<subseteq> set (keys (hd example_outputs))"
    by (simp add: example_outputs_def keys_def)
  have h6: "distinct (keys (example_f1_score (metric_sum example_outputs ''tp'')
                              (metric_sum example_outputs ''fp'') (metric_sum example_outputs ''fn'')))"
    unfolding sums f1 by (simp add: keys_def)
  have h7: "set (keys (example_f1_score (metric_sum example_outputs ''tp'')
                         (metric_sum example_outputs ''fp'') (metric_sum example_outputs ''fn'')))
            \<inter> set (keys (hd example_outputs)) = {}"
    unfolding sums f1 by (simp add: keys_def example_outputs_def)
  from validation_end_aggregates[where self = example_self and outputs = example_outputs
      and f1_score = example_f1_score and torch_sum = id and torch_mean = id,
      OF h1 h2 h3 h4 h5 h6 h7]
  obtain d where d:
    "validation_end example_f1_score id id example_self example_outputs =
       Inr [(''progress_bar'', Metrics d), (''log'', Metrics d),
            (''val_loss'', Scalar (metric_mean example_outputs ''val_loss''))]"
    "map_of d ''tp'' = Some (metric_sum example_outputs ''tp'')"
    "map_of d ''fp'' = Some (metric_sum example_outputs ''fp'')"
    "map_of d ''fn'' = Some (metric_sum example_outputs ''fn'')"
    "\<forall>name \<in> set (keys (hd example_outputs)) - {''tp'', ''fp'', ''fn''}.
        map_of d name = Some (metric_mean example_outputs name)"
    "\<forall>name \<in> set (keys (example_f1_score (metric_sum example_outputs ''tp'')
                           (metric_sum example_outputs ''fp'') (metric_sum example_outputs ''fn''))).
        map_of d name =
        map_of (example_f1_score (metric_sum example_outputs ''tp'')
                  (metric_sum example_outputs ''fp'') (metric_sum example_outputs ''fn'')) name"
    by blast
  have "''val_acc'' \<in> set (keys (hd example_outputs)) - {''tp'', ''fp'', ''fn''}"
    and "''val_loss'' \<in> set (keys (hd example_outputs)) - {''tp'', ''fp'', ''fn''}"
    by (simp_all add: example_outputs_def keys_def)
  then have acc: "map_of d ''val_acc'' = Some (75 / 1000)"
    and loss: "map_of d ''val_loss'' = Some (208 / 100)"
    using d(5) by (simp_all only: means)
  have "''precision'' \<in> set (keys (example_f1_score 3 37 5))"
    and "''recall'' \<in> set (keys (example_f1_score 3 37 5))"
    and "''f1_score'' \<in> set (keys (example_f1_score 3 37 5))"
    by (simp_all add: f1 keys_def)
  then have scores: "map_of d ''precision'' = Some (75 / 1000)" "map_of d ''recall'' = Some (375 / 1000)"
    "map_of d ''f1_score'' = Some (125 / 1000)"
    using d(6)[unfolded sums] by (simp_all add: f1)
  show ?thesis
    using d(1,2,3,4) acc loss scores by (intro exI[of _ d]) (simp add: sums means)
qed

section \<open>The forward pass\<close>

text \<open>
  Claim C5. For all \<open>input_ids\<close>, \<open>attention_mask\<close> and optional \<open>labels\<close>,
  \<open>EmotionModel.forward\<close> is the composition of the two sub-models: the context
  classifier applied, together with the labels, to the sentence embeddings that the
  embedding model produces from \<open>input_ids\<close> and \<open>attention_mask\<close>.
\<close>

theorem forward_is_composition:
  "forward self input_ids attention_mask labels =
     context_classifier_model self (sentence_embeds_model self input_ids attention_mask) labels"
  by (simp add: forward_def)

section \<open>The validation step under data parallelism\<close>

text \<open>
  Claim C9. \<open>EmotionModel.validation_step\<close> returns the score dictionary of \<open>metrics\<close>
  exactly when neither \<open>trainer.use_dp\<close> nor \<open>trainer.use_ddp2\<close> is set. When one of them
  is set, the reshaping branch iterates over the bound method \<open>scores_dict.values\<close>
  instead of its result, and the step raises \<open>TypeError\<close> for every batch.
\<close>

theorem validation_step_dp_TypeError:
  "validation_step metrics unsqueeze self (input_ids, attention_mask, labels) batch_idx =
     (if use_dp (trainer self) \<or> use_ddp2 (trainer self) then Inl TypeError
      else Inr (metrics (fst (forward self input_ids attention_mask (Some labels)))
                        (snd (forward self input_ids attention_mask (Some labels))) labels))"
  by (simp add: validation_step_def bindE_def py_iter_def dict_values_attr_def split: prod.splits)

section \<open>The three data loaders\<close>

text \<open>
  Claim C10. The train, validation and test data loaders are built with the same
  \<open>max_seq_len\<close>, batch size, label mapping \<open>emo_dict\<close> and \<open>use_ddp\<close> flag; they differ
  only in the file they read (\<open>train_file\<close>, \<open>val_file\<close>, \<open>test_file\<close>).
\<close>

theorem dataloaders_share_arguments:
  assumes "getattr (hparams self) ''max_seq_len'' = Inr max_len"
    and "getattr (hparams self) ''bs'' = Inr batch_size"
    and "getattr (hparams self) ''train_file'' = Inr train_path"
    and "getattr (hparams self) ''val_file'' = Inr val_path"
    and "getattr (hparams self) ''test_file'' = Inr test_path"
  shows "train_dataloader dataloader self =
           Inr (dataloader train_path max_len batch_size (emo_dict self) (use_ddp self)) \<and>
         val_dataloader dataloader self =
           Inr (dataloader val_path max_len batch_size (emo_dict self) (use_ddp self)) \<and>
         test_dataloader dataloader self =
           Inr (dataloader test_path max_len batch_size (emo_dict self) (use_ddp self))"
  using assms by (simp add: train_dataloader_def val_dataloader_def test_dataloader_def bindE_def)

theorem dataloaders_share_arguments_witness:
  "train_dataloader (\<lambda>path max_len batch_size emo ddp. (path, max_len, batch_size, emo, ddp)) example_self =
     Inr (StrV ''data/clean_train.txt'', IntV 10, IntV 40,
          [(''others'', 0), (''sad'', 1), (''angry'', 2), (''happy'', 3)], False) \<and>
   val_dataloader (\<lambda>path max_len batch_size emo ddp. (path, max_len, batch_size, emo, ddp)) example_self =
     Inr (StrV ''data/clean_val.txt'', IntV 10, IntV 40,
          [(''others'', 0), (''sad'', 1), (''angry'', 2), (''happy'', 3)], False) \<and>
   test_dataloader (\<lambda>path max_len batch_size emo ddp. (path, max_len, batch_size, emo, ddp)) example_self =
     Inr (StrV ''data/clean_test.txt'', IntV 10, IntV 40,
          [(''others'', 0), (''sad'', 1), (''angry'', 2), (''happy'', 3)], False)"
proof -
  have h1: "getattr (hparams example_self) ''max_seq_len'' = Inr (IntV 10)"
    and h2: "getattr (hparams example_self) ''bs'' = Inr (IntV 40)"
    and h3: "getattr (hparams example_self) ''train_file'' = Inr (StrV ''data/clean_train.txt'')"
    and h4: "getattr (hparams example_self) ''val_file'' = Inr (StrV ''data/clean_val.txt'')"
    and h5: "getattr (hparams example_self) ''test_file'' = Inr (StrV ''data/clean_test.txt'')"
    by (simp_all add: example_self_def getattr_def)
  show ?thesis
    using dataloaders_share_arguments[OF h1 h2 h3 h4 h5,
        of "\<lambda>path max_len batch_size emo ddp. (path, max_len, batch_size, emo, ddp)"]
    by (simp add: example_self_def)
qed

section \<open>The declared arguments and the parsed namespace\<close>

text \<open>The parser that the script builds, written out: \<open>get_args(EmotionModel)\<close>.\<close>

lemma get_args_table:
  "get_args add_model_specific_args cwd =
  [help_spec,
   \<lparr>flags = [''--mode''], dest = ''mode'', action = Store TStr,
      default_value = Some (StrV ''default''),
      choices = Some [StrV ''default'', StrV ''hparams_search''], opt = NotTunable\<rparr>,
   \<lparr>flags = [''--save-path''], dest = ''save_path'', action = Store TStr,
      default_value = Some (StrV (os_path_join cwd ''logs'')), choices = None, opt = NotTunable\<rparr>,
   \<lparr>flags = [''--gpus''], dest = ''gpus'', action = Store TInt,
      default_value = Some (IntV 0), choices = None, opt = NotTunable\<rparr>,
   \<lparr>flags = [''--distributed-backend''], dest = ''distributed_backend'', action = Store TStr,
      default_value = Some (StrV ''dp''),
      choices = Some [StrV ''dp'', StrV ''ddp'', StrV ''ddp2''], opt = NotTunable\<rparr>,
   \<lparr>flags = [''--use_16bit''], dest = ''use_16bit'', action = StoreTrue,
      default_value = Some (BoolV False), choices = None, opt = NotTunable\<rparr>,
   \<lparr>flags = [''--fast_dev_run''], dest = ''fast_dev_run'', action = StoreTrue,
      default_value = Some (BoolV False), choices = None, opt = NotTunable\<rparr>,
   \<lparr>flags = [''--track_grad_norm''], dest = ''track_grad_norm'', action = StoreTrue,
      default_value = Some (BoolV False), choices = None, opt = NotTunable\<rparr>,
   \<lparr>flags = [''--overfit_on_subset''], dest = ''overfit_on_subset'', action = Store TFloat,
      default_value = Some (FloatV 0), choices = None, opt = NotTunable\<rparr>,
   \<lparr>flags = [''--bs'', ''--batch_size''], dest = ''bs'', action = Store TInt,
      default_value = Some (IntV 40), choices = None,
      opt = OptList [IntV 10, IntV 40, IntV 80] True\<rparr>,
   \<lparr>flags = [''--max_seq_len''], dest = ''max_seq_len'', action = Store TInt,
      default_value = Some (IntV 10), choices = None,
      opt = OptList [IntV 5, IntV 10, IntV 15] True\<rparr>,
   \<lparr>flags = [''--projection_size''], dest = ''projection_size'', action = Store TInt,
      default_value = Some (IntV 100), choices = None,
      opt = OptList [IntV 50, IntV 100, IntV 150] True\<rparr>,
   \<lparr>flags = [''--dropout''], dest = ''dropout'', action = Store TFloat,
      default_value = Some (FloatV (1 / 10)), choices = None,
      opt = OptList [FloatV (5 / 100), FloatV (1 / 10), FloatV (2 / 10)] True\<rparr>,
   \<lparr>flags = [''--n_layers''], dest = ''n_layers'', action = Store TInt,
      default_value = Some (IntV 1), choices = None,
      opt = OptList [IntV 1, IntV 2, IntV 3] True\<rparr>,
   \<lparr>flags = [''--lr'', ''--learning_rate''], dest = ''lr'', action = Store TFloat,
      default_value = Some (FloatV (2 / 100000)), choices = None,
      opt = OptRange (1 / 100000) (3 / 100000) 4 True\<rparr>,
   \<lparr>flags = [''--layerwise_decay''], dest = ''layerwise_decay'', action = Store TFloat,
      default_value = Some (FloatV (95 / 100)), choices = None,
      opt = OptList [FloatV (99 / 100), FloatV (95 / 100), FloatV (9 / 10)] True\<rparr>,
   \<lparr>flags = [''--train_file''], dest = ''train_file'', action = Store TStr,
      default_value = Some (StrV (os_path_join cwd ''data/clean_train.txt'')),
      choices = None, opt = NotTunable\<rparr>,
   \<lparr>flags = [''--val_file''], dest = ''val_file'', action = Store TStr,
      default_value = Some (StrV (os_path_join cwd ''data/clean_val.txt'')),
      choices = None, opt = NotTunable\<rparr>,
   \<lparr>flags = [''--test_file''], dest = ''test_file'', action = Store TStr,
      default_value = Some (StrV (os_path_join cwd ''data/clean_test.txt'')),
      choices = None, opt = NotTunable\<rparr>,
   \<lparr>flags = [''--epochs''], dest = ''epochs'', action = Store TInt,
      default_value = Some (IntV 10), choices = None, opt = NotTunable\<rparr>,
   \<lparr>flags = [''--seed''], dest = ''seed'', action = Store TInt,
      default_value = Some NoneV, choices = None, opt = NotTunable\<rparr>]"
  by (simp add: get_args_def add_model_specific_args_def Let_def add_argument_def make_spec_def opt_list_def
      opt_range_def HyperOptArgumentParser_def dest_of_def is_long_def)

lemma defaults_table:
  "defaults (get_args add_model_specific_args cwd) =
     [(''mode'', StrV ''default''),
      (''save_path'', StrV (os_path_join cwd ''logs'')), (''gpus'', IntV 0),
      (''distributed_backend'', StrV ''dp''), (''use_16bit'', BoolV False),
      (''fast_dev_run'', BoolV False), (''track_grad_norm'', BoolV False),
      (''overfit_on_subset'', FloatV 0), (''bs'', IntV 40),
      (''max_seq_len'', IntV 10), (''projection_size'', IntV 100),
      (''dropout'', FloatV (1 / 10)), (''n_layers'', IntV 1),
      (''lr'', FloatV (2 / 100000)), (''layerwise_decay'', FloatV (95 / 100)),
      (''train_file'', StrV (os_path_join cwd ''data/clean_train.txt'')),
      (''val_file'', StrV (os_path_join cwd ''data/clean_val.txt'')),
      (''test_file'', StrV (os_path_join cwd ''data/clean_test.txt'')),
      (''epochs'', IntV 10), (''seed'', NoneV)]"
  unfolding get_args_table by (simp add: defaults_def help_spec_def keys_def)

lemma parse_no_overrides:
  "parse_args (get_args add_model_specific_args cwd) [] =
     Inr ([(''mode'', StrV ''default''),
      (''save_path'', StrV (os_path_join cwd ''logs'')), (''gpus'', IntV 0),
      (''distributed_backend'', StrV ''dp''), (''use_16bit'', BoolV False),
      (''fast_dev_run'', BoolV False), (''track_grad_norm'', BoolV False),
      (''overfit_on_subset'', FloatV 0), (''bs'', IntV 40),
      (''max_seq_len'', IntV 10), (''projection_size'', IntV 100),
      (''dropout'', FloatV (1 / 10)), (''n_layers'', IntV 1),
      (''lr'', FloatV (2 / 100000)), (''layerwise_decay'', FloatV (95 / 100)),
      (''train_file'', StrV (os_path_join cwd ''data/clean_train.txt'')),
      (''val_file'', StrV (os_path_join cwd ''data/clean_val.txt'')),
      (''test_file'', StrV (os_path_join cwd ''data/clean_test.txt'')),
      (''epochs'', IntV 10), (''seed'', NoneV),
      (''hpc_exp_number'', NoneV),
      (''trials'', MethodV ''opt_trials''),
      (''optimize_parallel'', MethodV ''optimize_parallel''),
      (''optimize_parallel_gpu'', MethodV ''optimize_parallel_gpu''),
      (''optimize_parallel_cpu'', MethodV ''optimize_parallel_cpu''),
      (''generate_trials'', MethodV ''generate_trials''),
      (''optimize_trials_parallel_gpu'', MethodV ''optimize_trials_parallel_gpu'')])"
  by (simp add: parse_args_def defaults_table bindE_def library_attributes_def)

lemma model_specific_dests:
  "map dest (filter (\<lambda>s. default_value s \<noteq> None) (add_model_specific_args [] cwd)) =
     [''bs'', ''max_seq_len'', ''projection_size'', ''dropout'', ''n_layers'', ''lr'',
      ''layerwise_decay'', ''train_file'', ''val_file'', ''test_file'', ''epochs'', ''seed'']"
  by (simp add: add_model_specific_args_def Let_def add_argument_def make_spec_def opt_list_def
      opt_range_def HyperOptArgumentParser_def dest_of_def is_long_def help_spec_def)

lemma parse_dropout:
  "py_float str = Some r \<Longrightarrow> \<not> looks_like_option str \<Longrightarrow>
   \<exists>hp. parse_args (get_args add_model_specific_args cwd) [''--dropout'', str] = Inr hp \<and>
        getattr hp ''dropout'' = Inr (FloatV r)"
  apply (simp only: parse_args_def defaults_table)
  apply (simp add: get_args_table parse_loop.simps find_spec_def split_explicit_def store_value_def
      convert_def bindE_def help_spec_def library_attributes_def getattr_def keys_def)
  done

lemma find_spec_dropout:
  "find_spec (get_args add_model_specific_args cwd) ''--dropout'' =
     Some \<lparr>flags = [''--dropout''], dest = ''dropout'', action = Store TFloat,
           default_value = Some (FloatV (1 / 10)), choices = None,
           opt = OptList [FloatV (5 / 100), FloatV (1 / 10), FloatV (2 / 10)] True\<rparr>"
  unfolding get_args_table by (simp add: find_spec_def help_spec_def)

section \<open>What parsing preserves\<close>

lemma find_spec_in: "find_spec p f = Some s \<Longrightarrow> s \<in> set p"
  by (auto simp: find_spec_def find_Some_iff)

lemma defaults_fold_entries:
  "(k, v) \<in> set (foldl (\<lambda>ns s. case default_value s of
                      None \<Rightarrow> ns
                    | Some v \<Rightarrow> if dest s \<in> set (keys ns) then ns else ns @ [(dest s, v)]) acc p) \<Longrightarrow>
   (k, v) \<in> set acc \<or> (\<exists>s \<in> set p. dest s = k \<and> default_value s = Some v)"
proof (induction p arbitrary: acc)
  case Nil
  then show ?case by simp
next
  case (Cons s p)
  from Cons.IH[OF Cons.prems[simplified]] show ?case
    by (auto split: option.splits if_splits)
qed

lemma honours_defaults: "honours p (defaults p)"
  unfolding honours_def admits_def defaults_def
  using defaults_fold_entries[of _ _ "[]" p] by (fastforce dest: map_of_SomeD)

lemma honours_setitem: "honours p ns \<Longrightarrow> admits p k v \<Longrightarrow> honours p (setitem ns k v)"
  by (simp add: honours_def map_of_setitem)

lemma honours_store_value:
  assumes "store_value s ty str ns = Inr ns'" "s \<in> set p" "action s = Store ty" "honours p ns"
  shows "honours p ns'"
proof -
  from assms(1) obtain v where v: "convert ty str = Some v"
    and ok: "case choices s of None \<Rightarrow> True | Some cs \<Rightarrow> v \<in> set cs"
    and ns': "ns' = setitem ns (dest s) v"
    by (auto simp: store_value_def split: option.splits if_splits)
  have "admits p (dest s) v"
    unfolding admits_def using assms(2,3) v ok by blast
  then show ?thesis
    unfolding ns' by (rule honours_setitem[OF assms(4)])
qed

lemma honours_parse_loop:
  "parse_loop p argv ns = Inr ns' \<Longrightarrow> honours p ns \<Longrightarrow> honours p ns'"
proof (induction p argv ns rule: parse_loop.induct)
  case (1 p ns)
  then show ?case by simp
next
  case (2 p tok rest ns)
  from "2.prems"(1) obtain s where s: "find_spec p (fst (split_explicit p tok)) = Some s"
    by (auto split: option.splits)
  note s_in = find_spec_in[OF s]
  show ?case
  proof (cases "action s")
    case Help
    with "2.prems"(1) s show ?thesis by simp
  next
    case StoreTrue
    with "2.prems"(1) s have none: "snd (split_explicit p tok) = None"
      and run: "parse_loop p rest (setitem ns (dest s) (BoolV True)) = Inr ns'"
      by (auto split: option.splits)
    have "admits p (dest s) (BoolV True)"
      unfolding admits_def using s_in StoreTrue by blast
    from "2.IH"(3)[OF s StoreTrue none run honours_setitem[OF "2.prems"(2) this]]
    show ?thesis .
  next
    case (Store ty)
    show ?thesis
    proof (cases "snd (split_explicit p tok)")
      case (Some str)
      with "2.prems"(1) s Store obtain ns1 where st: "store_value s ty str ns = Inr ns1"
        and run: "parse_loop p rest ns1 = Inr ns'"
        by (auto simp: bindE_def split: sum.splits)
      from "2.IH"(2)[OF s Store Some run honours_store_value[OF st s_in Store "2.prems"(2)]]
      show ?thesis .
    next
      case None
      with "2.prems"(1) s Store obtain str rest' ns1 where rest: "rest = str # rest'"
        and nopt: "\<not> looks_like_option str"
        and st: "store_value s ty str ns = Inr ns1"
        and run: "parse_loop p rest' ns1 = Inr ns'"
        by (auto simp: bindE_def split: sum.splits list.splits if_splits)
      from "2.IH"(1)[OF s Store None rest nopt run honours_store_value[OF st s_in Store "2.prems"(2)]]
      show ?thesis .
    qed
  qed
qed

lemma admits_mode:
  "admits (get_args add_model_specific_args cwd) ''mode'' v \<Longrightarrow>
   v = StrV ''default'' \<or> v = StrV ''hparams_search''"
  unfolding admits_def get_args_table by (auto simp: help_spec_def)

lemma admits_distributed_backend:
  "admits (get_args add_model_specific_args cwd) ''distributed_backend'' v \<Longrightarrow>
   v = StrV ''dp'' \<or> v = StrV ''ddp'' \<or> v = StrV ''ddp2''"
  unfolding admits_def get_args_table by (auto simp: help_spec_def)

lemma admits_gpus:
  "admits (get_args add_model_specific_args cwd) ''gpus'' v \<Longrightarrow> \<exists>n. v = IntV n"
  unfolding admits_def get_args_table by (auto simp: help_spec_def convert_def)

lemma admits_use_16bit:
  "admits (get_args add_model_specific_args cwd) ''use_16bit'' v \<Longrightarrow> \<exists>b. v = BoolV b"
  unfolding admits_def get_args_table by (auto simp: help_spec_def)

lemma store_value_keeps:
  "store_value s ty str ns = Inr ns' \<Longrightarrow> map_of ns k \<noteq> None \<Longrightarrow> map_of ns' k \<noteq> None"
  by (auto simp: store_value_def map_of_setitem split: option.splits if_splits)

lemma parse_loop_keeps:
  "parse_loop p argv ns = Inr ns' \<Longrightarrow> map_of ns k \<noteq> None \<Longrightarrow> map_of ns' k \<noteq> None"
proof (induction p argv ns rule: parse_loop.induct)
  case (1 p ns)
  then show ?case by simp
next
  case (2 p tok rest ns)
  from "2.prems"(1) obtain s where s: "find_spec p (fst (split_explicit p tok)) = Some s"
    by (auto split: option.splits)
  show ?case
  proof (cases "action s")
    case Help
    with "2.prems"(1) s show ?thesis by simp
  next
    case StoreTrue
    with "2.prems"(1) s have none: "snd (split_explicit p tok) = None"
      and run: "parse_loop p rest (setitem ns (dest s) (BoolV True)) = Inr ns'"
      by (auto split: option.splits)
    have "map_of (setitem ns (dest s) (BoolV True)) k \<noteq> None"
      using "2.prems"(2) by (simp add: map_of_setitem)
    from "2.IH"(3)[OF s StoreTrue none run this] show ?thesis .
  next
    case (Store ty)
    show ?thesis
    proof (cases "snd (split_explicit p tok)")
      case (Some str)
      with "2.prems"(1) s Store obtain ns1 where st: "store_value s ty str ns = Inr ns1"
        and run: "parse_loop p rest ns1 = Inr ns'"
        by (auto simp: bindE_def split: sum.splits)
      from "2.IH"(2)[OF s Store Some run store_value_keeps[OF st "2.prems"(2)]]
      show ?thesis .
    next
      case None
      with "2.prems"(1) s Store obtain str rest' ns1 where rest: "rest = str # rest'"
        and nopt: "\<not> looks_like_option str"
        and st: "store_value s ty str ns = Inr ns1"
        and run: "parse_loop p rest' ns1 = Inr ns'"
        by (auto simp: bindE_def split: sum.splits list.splits if_splits)
      from "2.IH"(1)[OF s Store None rest nopt run store_value_keeps[OF st "2.prems"(2)]]
      show ?thesis .
    qed
  qed
qed

lemma map_of_library_attributes:
  "k \<notin> set (keys library_attributes) \<Longrightarrow>
   map_of (dict_update ns library_attributes) k = map_of ns k"
  by (simp add: library_attributes_def keys_def map_of_setitem)

lemma parsed_attribute:
  assumes "parse_args (get_args add_model_specific_args cwd) argv = Inr hp"
    and "k \<in> set (keys (defaults (get_args add_model_specific_args cwd)))"
    and "k \<notin> set (keys library_attributes)"
  shows "\<exists>v. getattr hp k = Inr v \<and> admits (get_args add_model_specific_args cwd) k v"
proof -
  let ?p = "get_args add_model_specific_args cwd"
  from assms(1) obtain ns where loop: "parse_loop ?p argv (defaults ?p) = Inr ns"
    and hp: "hp = dict_update ns library_attributes"
    by (auto simp: parse_args_def bindE_def split: sum.splits)
  have "map_of (defaults ?p) k \<noteq> None"
    using assms(2) by (simp add: keys_def map_of_eq_None_iff)
  from parse_loop_keeps[OF loop this] obtain v where v: "map_of ns k = Some v"
    by auto
  have "honours ?p ns"
    by (rule honours_parse_loop[OF loop honours_defaults])
  then have "admits ?p k v"
    using v by (simp add: honours_def)
  moreover have "getattr hp k = Inr v"
    by (simp add: getattr_def hp map_of_library_attributes[OF assms(3)] v)
  ultimately show ?thesis by blast
qed

lemma parsed_search_methods:
  assumes "parse_args (get_args add_model_specific_args cwd) argv = Inr hp"
  shows "getattr hp ''optimize_parallel_cpu'' = Inr (MethodV ''optimize_parallel_cpu'')"
    and "getattr hp ''optimize_parallel_gpu'' = Inr (MethodV ''optimize_parallel_gpu'')"
  using assms
  by (auto simp: parse_args_def bindE_def getattr_def library_attributes_def map_of_setitem
      split: sum.splits)

lemma call_cpu_binds:
  "call_method (MethodV ''optimize_parallel_cpu'') f [(''nb_trials'', IntArg 20), (''nb_workers'', IntArg 1)] =
     Inr (LibraryCall ''optimize_parallel_cpu'' f [(''nb_trials'', IntArg 20), (''nb_workers'', IntArg 1)])"
  by (simp add: call_method_def method_signature_def binds_def)

lemma call_gpu_raises:
  "call_method (MethodV ''optimize_parallel_gpu'') f [(''nb_trials'', IntArg 20), (''gpus'', ListArg ids)] =
     Inl TypeError"
  by (simp add: call_method_def method_signature_def binds_def)

text \<open>
  The script on a command line that parses: the mode is one of the two declared choices
  and the number of GPUs an integer, so exactly one of three branches runs. The call
  of the GPU search passes the keywords \<open>nb_trials\<close> and \<open>gpus\<close>, which are no parameters
  of \<open>optimize_parallel_gpu\<close>.
\<close>

lemma main_py_parsed:
  assumes "parse_args (get_args add_model_specific_args cwd) argv = Inr hp"
  shows "\<exists>m n d b.
      getattr hp ''mode'' = Inr (StrV m) \<and> m \<in> {''default'', ''hparams_search''} \<and>
      getattr hp ''gpus'' = Inr (IntV n) \<and>
      getattr hp ''distributed_backend'' = Inr (StrV d) \<and> d \<in> {''dp'', ''ddp'', ''ddp2''} \<and>
      getattr hp ''use_16bit'' = Inr (BoolV b) \<and>
      main_py sem_cls ctx_cls base rng0 cwd argv =
        (if m = ''default'' then
           bindE (main sem_cls ctx_cls base rng0 hp) (\<lambda>run. Inr (Trained run))
         else if n = 0 then
           Inr (Searched (LibraryCall ''optimize_parallel_cpu'' (main sem_cls ctx_cls base rng0)
                            [(''nb_trials'', IntArg 20), (''nb_workers'', IntArg 1)]))
         else Inl TypeError)"
proof -
  let ?p = "get_args add_model_specific_args cwd"
  have lib: "''mode'' \<notin> set (keys library_attributes)" "''gpus'' \<notin> set (keys library_attributes)"
    "''distributed_backend'' \<notin> set (keys library_attributes)"
    "''use_16bit'' \<notin> set (keys library_attributes)"
    by (simp_all add: library_attributes_def keys_def)
  have dfl: "''mode'' \<in> set (keys (defaults ?p))" "''gpus'' \<in> set (keys (defaults ?p))"
    "''distributed_backend'' \<in> set (keys (defaults ?p))"
    "''use_16bit'' \<in> set (keys (defaults ?p))"
    by (simp_all add: defaults_table keys_def)
  from parsed_attribute[OF assms dfl(1) lib(1)] admits_mode obtain m where
    m: "getattr hp ''mode'' = Inr (StrV m)" "m = ''default'' \<or> m = ''hparams_search''"
    by blast
  from parsed_attribute[OF assms dfl(2) lib(2)] admits_gpus obtain n where
    n: "getattr hp ''gpus'' = Inr (IntV n)"
    by blast
  from parsed_attribute[OF assms dfl(3) lib(3)] admits_distributed_backend obtain d where
    d: "getattr hp ''distributed_backend'' = Inr (StrV d)" "d = ''dp'' \<or> d = ''ddp'' \<or> d = ''ddp2''"
    by blast
  from parsed_attribute[OF assms dfl(4) lib(4)] admits_use_16bit obtain b where
    b: "getattr hp ''use_16bit'' = Inr (BoolV b)"
    by blast
  note meth = parsed_search_methods[OF assms]
  have run: "main_py sem_cls ctx_cls base rng0 cwd argv =
        (if m = ''default'' then
           bindE (main sem_cls ctx_cls base rng0 hp) (\<lambda>run. Inr (Trained run))
         else if n = 0 then
           Inr (Searched (LibraryCall ''optimize_parallel_cpu'' (main sem_cls ctx_cls base rng0)
                            [(''nb_trials'', IntArg 20), (''nb_workers'', IntArg 1)]))
         else Inl TypeError)"
    using m(2)
    by (auto simp: main_py_def Let_def assms m(1) n meth bindE_def py_eq_def num_of_def
        py_range_def call_cpu_binds call_gpu_raises)
  show ?thesis
    using m n d b run by blast
qed

section \<open>The namespace of the empty command line\<close>

text \<open>
  Claim C7, as amended. Parsing the command line with no overrides yields a flat namespace
  that holds the fields declared by \<open>add_model_specific_args\<close> (its arguments with a
  default), and these are exactly
  \<open>bs\<close> (40), \<open>max_seq_len\<close> (10), \<open>projection_size\<close> (100), \<open>dropout\<close> (0.1),
  \<open>n_layers\<close> (1), \<open>lr\<close> (2e-5), \<open>layerwise_decay\<close> (0.95), \<open>train_file\<close>, \<open>val_file\<close>,
  \<open>test_file\<close> (the cleaned data files under the working directory), \<open>epochs\<close> (10) and
  \<open>seed\<close> (\<open>None\<close>). Before them the namespace holds the run options of the parent parser
  (\<open>mode\<close>, \<open>save_path\<close>, \<open>gpus\<close>, \<open>distributed_backend\<close>, \<open>use_16bit\<close>, \<open>fast_dev_run\<close>,
  \<open>track_grad_norm\<close>, \<open>overfit_on_subset\<close>), and after them the attributes that the
  parser library attaches.
\<close>

theorem parse_args_no_overrides_fields:
  "parse_args (get_args add_model_specific_args cwd) [] =
     Inr [(''mode'', StrV ''default''),
          (''save_path'', StrV (os_path_join cwd ''logs'')), (''gpus'', IntV 0),
          (''distributed_backend'', StrV ''dp''), (''use_16bit'', BoolV False),
          (''fast_dev_run'', BoolV False), (''track_grad_norm'', BoolV False),
          (''overfit_on_subset'', FloatV 0), (''bs'', IntV 40),
          (''max_seq_len'', IntV 10), (''projection_size'', IntV 100),
          (''dropout'', FloatV (1 / 10)), (''n_layers'', IntV 1),
          (''lr'', FloatV (2 / 100000)), (''layerwise_decay'', FloatV (95 / 100)),
          (''train_file'', StrV (os_path_join cwd ''data/clean_train.txt'')),
          (''val_file'', StrV (os_path_join cwd ''data/clean_val.txt'')),
          (''test_file'', StrV (os_path_join cwd ''data/clean_test.txt'')),
          (''epochs'', IntV 10), (''seed'', NoneV),
          (''hpc_exp_number'', NoneV),
          (''trials'', MethodV ''opt_trials''),
          (''optimize_parallel'', MethodV ''optimize_parallel''),
          (''optimize_parallel_gpu'', MethodV ''optimize_parallel_gpu''),
          (''optimize_parallel_cpu'', MethodV ''optimize_parallel_cpu''),
          (''generate_trials'', MethodV ''generate_trials''),
          (''optimize_trials_parallel_gpu'', MethodV ''optimize_trials_parallel_gpu'')] \<and>
   map dest (filter (\<lambda>s. default_value s \<noteq> None) (add_model_specific_args [] cwd)) =
     [''bs'', ''max_seq_len'', ''projection_size'', ''dropout'', ''n_layers'', ''lr'',
      ''layerwise_decay'', ''train_file'', ''val_file'', ''test_file'', ''epochs'', ''seed'']"
  using parse_no_overrides[of cwd] model_specific_dests[of cwd] by simp

text \<open>
  The claim as first stated, that the namespace contains exactly the twelve model
  fields, fails: for the working directory \<open>/repo\<close> the field \<open>gpus\<close> is present too.
\<close>

theorem parsed_namespace_has_run_options:
  "\<exists>hp. parse_args (get_args add_model_specific_args ''/repo'') [] = Inr hp \<and>
        getattr hp ''gpus'' = Inr (IntV 0) \<and>
        set (keys hp) \<noteq>
          set [''bs'', ''max_seq_len'', ''projection_size'', ''dropout'', ''n_layers'', ''lr'',
               ''layerwise_decay'', ''train_file'', ''val_file'', ''test_file'', ''epochs'', ''seed'']"
proof -
  from parse_no_overrides[of "''/repo''"] obtain hp where
    p: "parse_args (get_args add_model_specific_args ''/repo'') [] = Inr hp"
    and g: "getattr hp ''gpus'' = Inr (IntV 0)"
    and k: "''gpus'' \<in> set (keys hp)"
    by (simp add: keys_def getattr_def)
  have "''gpus'' \<notin> set [''bs'', ''max_seq_len'', ''projection_size'', ''dropout'', ''n_layers'',
                          ''lr'', ''layerwise_decay'', ''train_file'', ''val_file'', ''test_file'',
                          ''epochs'', ''seed'']"
    by simp
  with k have "set (keys hp) \<noteq>
          set [''bs'', ''max_seq_len'', ''projection_size'', ''dropout'', ''n_layers'', ''lr'',
               ''layerwise_decay'', ''train_file'', ''val_file'', ''test_file'', ''epochs'', ''seed'']"
    by blast
  with p g show ?thesis by blast
qed

section \<open>The range of the dropout rate\<close>

text \<open>
  Claim C8, as amended. The default dropout rate (0.1) and every value of the tunable
  search space (0.05, 0.1, 0.2) lie in the interval from 0 to 1. The parser declares no
  \<open>choices\<close> for \<open>--dropout\<close> and checks no range: every decimal literal given on the
  command line is accepted and stored as the dropout rate.
\<close>

theorem dropout_search_space_in_unit_interval:
  assumes "py_float str = Some r" and "\<not> looks_like_option str"
  shows "find_spec (get_args add_model_specific_args cwd) ''--dropout'' =
           Some \<lparr>flags = [''--dropout''], dest = ''dropout'', action = Store TFloat,
                 default_value = Some (FloatV (1 / 10)), choices = None,
                 opt = OptList [FloatV (5 / 100), FloatV (1 / 10), FloatV (2 / 10)] True\<rparr> \<and>
         in_unit_interval (FloatV (1 / 10)) \<and>
         list_all in_unit_interval [FloatV (5 / 100), FloatV (1 / 10), FloatV (2 / 10)] \<and>
         (\<exists>hp. parse_args (get_args add_model_specific_args cwd) [''--dropout'', str] = Inr hp \<and>
               getattr hp ''dropout'' = Inr (FloatV r))"
  using parse_dropout[OF assms, of cwd] find_spec_dropout[of cwd]
  by (simp add: in_unit_interval_def)

theorem dropout_search_space_in_unit_interval_witness:
  "py_float ''0.25'' = Some (1 / 4) \<and> \<not> looks_like_option ''0.25'' \<and>
   (\<exists>hp. parse_args (get_args add_model_specific_args ''/repo'') [''--dropout'', ''0.25''] = Inr hp \<and>
         getattr hp ''dropout'' = Inr (FloatV (1 / 4)))"
proof -
  have h1: "py_float ''0.25'' = Some (1 / 4)"
    by (simp add: py_float_def strip_sign_def is_digit_def digits_val_def digit_val_def)
  have h2: "\<not> looks_like_option ''0.25''"
    by (simp add: looks_like_option_def)
  show ?thesis
    using h1 h2 dropout_search_space_in_unit_interval[OF h1 h2, of "''/repo''"] by simp
qed

text \<open>
  The claim as first stated, that every accepted configuration has its dropout rate
  between 0 and 1, fails: \<open>--dropout 1.5\<close> is accepted.
\<close>

theorem dropout_out_of_range_accepted:
  "\<exists>hp. parse_args (get_args add_model_specific_args ''/repo'') [''--dropout'', ''1.5''] = Inr hp \<and>
        getattr hp ''dropout'' = Inr (FloatV (3 / 2)) \<and> \<not> in_unit_interval (FloatV (3 / 2))"
proof -
  have h1: "py_float ''1.5'' = Some (3 / 2)"
    by (simp add: py_float_def strip_sign_def is_digit_def digits_val_def digit_val_def)
  have h2: "\<not> looks_like_option ''1.5''"
    by (simp add: looks_like_option_def)
  show ?thesis
    using parse_dropout[OF h1 h2, of "''/repo''"] by (simp add: in_unit_interval_def)
qed

section \<open>The command-line entry point\<close>

text \<open>
  Claim C3 says that the single entry point accepts \<open>--gpus\<close> (default 0), \<open>--use_16bit\<close>,
  \<open>--distributed-backend\<close> (one of \<open>dp\<close>, \<open>ddp\<close>, \<open>ddp2\<close>, default \<open>dp\<close>) and \<open>--mode\<close> (one of
  \<open>default\<close>, \<open>hparams_search\<close>), that mode \<open>default\<close> makes one training run via \<open>main\<close>,
  and that mode \<open>hparams_search\<close> runs a search of 20 trials, on CPU workers when \<open>gpus\<close>
  is 0 and on the GPUs \<open>0 .. gpus - 1\<close> otherwise. On the code, for every command line
  that parses, the flags and their defaults are as claimed, mode \<open>default\<close> makes exactly
  one call of \<open>main\<close>, and mode \<open>hparams_search\<close> with \<open>gpus\<close> equal to 0 starts
  \<open>optimize_parallel_cpu\<close> with \<open>main\<close>, 20 trials and one worker. With any other number
  of GPUs the script calls \<open>optimize_parallel_gpu\<close> with the keywords \<open>nb_trials\<close> and
  \<open>gpus\<close>, which the method does not have: the call raises \<open>TypeError\<close> and no search on
  GPUs is started.
\<close>

theorem main_py_dispatch:
  assumes "parse_args (get_args add_model_specific_args cwd) argv = Inr hp"
  shows "(\<exists>m n d b.
      getattr hp ''mode'' = Inr (StrV m) \<and> m \<in> {''default'', ''hparams_search''} \<and>
      getattr hp ''gpus'' = Inr (IntV n) \<and>
      getattr hp ''distributed_backend'' = Inr (StrV d) \<and> d \<in> {''dp'', ''ddp'', ''ddp2''} \<and>
      getattr hp ''use_16bit'' = Inr (BoolV b) \<and>
      main_py sem_cls ctx_cls base rng0 cwd argv =
        (if m = ''default'' then
           bindE (main sem_cls ctx_cls base rng0 hp) (\<lambda>run. Inr (Trained run))
         else if n = 0 then
           Inr (Searched (LibraryCall ''optimize_parallel_cpu'' (main sem_cls ctx_cls base rng0)
                            [(''nb_trials'', IntArg 20), (''nb_workers'', IntArg 1)]))
         else Inl TypeError)) \<and>
    (\<exists>hp0. parse_args (get_args add_model_specific_args cwd) [] = Inr hp0 \<and>
           getattr hp0 ''gpus'' = Inr (IntV 0) \<and>
           getattr hp0 ''use_16bit'' = Inr (BoolV False) \<and>
           getattr hp0 ''distributed_backend'' = Inr (StrV ''dp'') \<and>
           getattr hp0 ''mode'' = Inr (StrV ''default''))"
proof
  show "\<exists>m n d b.
      getattr hp ''mode'' = Inr (StrV m) \<and> m \<in> {''default'', ''hparams_search''} \<and>
      getattr hp ''gpus'' = Inr (IntV n) \<and>
      getattr hp ''distributed_backend'' = Inr (StrV d) \<and> d \<in> {''dp'', ''ddp'', ''ddp2''} \<and>
      getattr hp ''use_16bit'' = Inr (BoolV b) \<and>
      main_py sem_cls ctx_cls base rng0 cwd argv =
        (if m = ''default'' then
           bindE (main sem_cls ctx_cls base rng0 hp) (\<lambda>run. Inr (Trained run))
         else if n = 0 then
           Inr (Searched (LibraryCall ''optimize_parallel_cpu'' (main sem_cls ctx_cls base rng0)
                            [(''nb_trials'', IntArg 20), (''nb_workers'', IntArg 1)]))
         else Inl TypeError)"
    by (rule main_py_parsed[OF assms])
  show "\<exists>hp0. parse_args (get_args add_model_specific_args cwd) [] = Inr hp0 \<and>
           getattr hp0 ''gpus'' = Inr (IntV 0) \<and>
           getattr hp0 ''use_16bit'' = Inr (BoolV False) \<and>
           getattr hp0 ''distributed_backend'' = Inr (StrV ''dp'') \<and>
           getattr hp0 ''mode'' = Inr (StrV ''default'')"
    using parse_no_overrides[of cwd] by (simp add: getattr_def)
qed

text \<open>
  The statement on the command line of a search on two GPUs with 16-bit precision and
  the \<open>ddp\<close> backend: the command line parses, and the script ends in \<open>TypeError\<close>.
\<close>

theorem main_py_dispatch_witness:
  "(\<exists>hp. parse_args (get_args add_model_specific_args ''/repo'')
            [''--gpus'', ''2'', ''--use_16bit'', ''--distributed-backend'', ''ddp'',
             ''--mode'', ''hparams_search''] = Inr hp \<and>
         getattr hp ''mode'' = Inr (StrV ''hparams_search'') \<and>
         getattr hp ''gpus'' = Inr (IntV 2)) \<and>
   main_py example_sem example_ctx example_base example_rng ''/repo''
     [''--gpus'', ''2'', ''--use_16bit'', ''--distributed-backend'', ''ddp'',
      ''--mode'', ''hparams_search''] = Inl TypeError"
proof -
  let ?argv = "[''--gpus'', ''2'', ''--use_16bit'', ''--distributed-backend'', ''ddp'',
                ''--mode'', ''hparams_search'']"
  have parsed: "\<exists>hp. parse_args (get_args add_model_specific_args ''/repo'') ?argv = Inr hp \<and>
             getattr hp ''mode'' = Inr (StrV ''hparams_search'') \<and>
             getattr hp ''gpus'' = Inr (IntV 2)"
    apply (simp only: parse_args_def defaults_table)
    apply (simp add: get_args_table parse_loop.simps find_spec_def split_explicit_def
        store_value_def convert_def py_int_def strip_sign_def is_digit_def digits_val_def
        digit_val_def looks_like_option_def negative_number_like_def bindE_def help_spec_def
        library_attributes_def getattr_def keys_def)
    done
  then obtain hp where p: "parse_args (get_args add_model_specific_args ''/repo'') ?argv = Inr hp"
    and m: "getattr hp ''mode'' = Inr (StrV ''hparams_search'')"
    and g: "getattr hp ''gpus'' = Inr (IntV 2)"
    by blast
  from main_py_dispatch[OF p, of example_sem example_ctx example_base example_rng]
  have "main_py example_sem example_ctx example_base example_rng ''/repo'' ?argv = Inl TypeError"
    using m g by auto
  with parsed show ?thesis
    by blast
qed

section \<open>Construction of the module and one run of \<open>main\<close>\<close>


lemma EmotionModel_init_parsed:
  assumes "parse_args (get_args add_model_specific_args cwd) argv = Inr hp"
  shows "\<exists>self. EmotionModel_init sem_cls ctx_cls base hp = Inr self"
proof -
  let ?p = "get_args add_model_specific_args cwd"
  have lib: "''projection_size'' \<notin> set (keys library_attributes)"
    "''n_layers'' \<notin> set (keys library_attributes)" "''dropout'' \<notin> set (keys library_attributes)"
    by (simp_all add: library_attributes_def keys_def)
  have dfl: "''projection_size'' \<in> set (keys (defaults ?p))" "''n_layers'' \<in> set (keys (defaults ?p))"
    "''dropout'' \<in> set (keys (defaults ?p))"
    by (simp_all add: defaults_table keys_def)
  from parsed_attribute[OF assms dfl(1) lib(1)] parsed_attribute[OF assms dfl(2) lib(2)]
    parsed_attribute[OF assms dfl(3) lib(3)]
  obtain ps nl dr where "getattr hp ''projection_size'' = Inr ps" "getattr hp ''n_layers'' = Inr nl"
    "getattr hp ''dropout'' = Inr dr"
    by blast
  then show ?thesis
    by (simp add: EmotionModel_init_def Let_def bindE_def)
qed

lemma main_seeded:
  assumes "getattr hp ''seed'' = Inr seed" and "seed \<noteq> NoneV"
    and "EmotionModel_init sem_cls ctx_cls base hp = Inr model"
  shows "main sem_cls ctx_cls base rng0 hp = Inl (NameError ''random'')"
  using assms by (simp add: main_def bindE_def resolve_def core_globals_def)

lemma main_Inr:
  assumes "main sem_cls ctx_cls base rng0 hp = Inr run"
  shows "save_best_only (checkpoint_callback (fit_trainer run)) \<and>
         monitor (checkpoint_callback (fit_trainer run)) = ''f1_score'' \<and>
         mode (checkpoint_callback (fit_trainer run)) = ''max'' \<and>
         returned run = NoneV \<and>
         getattr hp ''seed'' = Inr NoneV \<and> rng run = rng0"
proof -
  from assms obtain model where init: "EmotionModel_init sem_cls ctx_cls base hp = Inr model"
    by (auto simp: main_def resolve_def core_globals_def dest!: bindE_Inr)
  from assms init obtain seed where seed: "getattr hp ''seed'' = Inr seed"
    by (auto simp: main_def resolve_def core_globals_def bindE_def split: sum.splits)
  have none: "seed = NoneV"
    using main_seeded[OF seed _ init, of rng0] assms by auto
  from assms show ?thesis
    unfolding main_def
    by (auto simp: init seed none resolve_def core_globals_def Let_def bindE_def split: sum.splits)
qed

lemma parse_seed_42:
  "\<exists>hp. parse_args (get_args add_model_specific_args ''/repo'') [''--seed'', ''42''] = Inr hp \<and>
        getattr hp ''seed'' = Inr (IntV 42)"
  apply (simp only: parse_args_def defaults_table)
  apply (simp add: get_args_table parse_loop.simps find_spec_def split_explicit_def
      store_value_def convert_def py_int_def strip_sign_def is_digit_def digits_val_def
      digit_val_def looks_like_option_def negative_number_like_def bindE_def help_spec_def
      library_attributes_def getattr_def keys_def)
  done

lemma main_no_overrides:
  "\<exists>hp run. parse_args (get_args add_model_specific_args ''/repo'') [] = Inr hp \<and>
            main example_sem example_ctx example_base example_rng hp = Inr run \<and>
            checkpoint_callback (fit_trainer run) =
              \<lparr>filepath = ''/repo/logs/model_checkpoints'', save_best_only = True, verbose = True,
               monitor = ''f1_score'', mode = ''max'', prefix = []\<rparr> \<and>
            returned run = NoneV"
  unfolding parse_no_overrides
  by (simp add: main_def EmotionModel_init_def Let_def bindE_def getattr_def resolve_def
      core_globals_def path_join_def os_path_join_def)

lemma parse_mode_search:
  "\<exists>hp. parse_args (get_args add_model_specific_args ''/repo'') [''--mode'', ''hparams_search''] = Inr hp \<and>
        getattr hp ''mode'' = Inr (StrV ''hparams_search'') \<and>
        getattr hp ''gpus'' = Inr (IntV 0)"
  apply (simp only: parse_args_def defaults_table)
  apply (simp add: get_args_table parse_loop.simps find_spec_def split_explicit_def
      store_value_def convert_def looks_like_option_def negative_number_like_def bindE_def
      help_spec_def library_attributes_def getattr_def keys_def)
  done

lemma main_py_search_cpu:
  assumes "parse_args (get_args add_model_specific_args cwd) argv = Inr hp"
    and "getattr hp ''mode'' = Inr (StrV ''hparams_search'')"
    and "getattr hp ''gpus'' = Inr (IntV 0)"
  shows "main_py sem_cls ctx_cls base rng0 cwd argv =
           Inr (Searched (LibraryCall ''optimize_parallel_cpu'' (main sem_cls ctx_cls base rng0)
                            [(''nb_trials'', IntArg 20), (''nb_workers'', IntArg 1)]))"
  using main_py_parsed[OF assms(1), of sem_cls ctx_cls base rng0] assms(2,3) by auto

section \<open>Seeding\<close>

text \<open>
  Claim C2 says that \<open>main\<close> seeds the Python and torch generators and enables
  deterministic cuDNN whenever the seed is not \<open>None\<close>. The code attempts this but the
  module never imports \<open>random\<close>: for every configuration with a seed whose model can be
  constructed, \<open>main\<close> raises \<open>NameError\<close> at \<open>random.seed\<close>, before any generator is
  seeded and before training starts.
\<close>

theorem main_seed_NameError:
  assumes "getattr hp ''seed'' = Inr seed" and "seed \<noteq> NoneV"
    and "EmotionModel_init sem_cls ctx_cls base hp = Inr model"
  shows "main sem_cls ctx_cls base rng0 hp = Inl (NameError ''random'')"
  by (rule main_seeded[OF assms])

theorem main_seed_NameError_witness:
  "\<exists>hp. parse_args (get_args add_model_specific_args ''/repo'') [''--seed'', ''42''] = Inr hp \<and>
        getattr hp ''seed'' = Inr (IntV 42) \<and>
        main example_sem example_ctx example_base example_rng hp = Inl (NameError ''random'')"
proof -
  from parse_seed_42 obtain hp where
    p: "parse_args (get_args add_model_specific_args ''/repo'') [''--seed'', ''42''] = Inr hp"
    and s: "getattr hp ''seed'' = Inr (IntV 42)"
    by blast
  from EmotionModel_init_parsed[OF p, of example_sem example_ctx example_base] obtain model where
    init: "EmotionModel_init example_sem example_ctx example_base hp = Inr model"
    by blast
  have ne: "IntV 42 \<noteq> NoneV"
    by simp
  from main_seed_NameError[OF s ne init, of example_rng] p s show ?thesis
    by blast
qed

section \<open>Checkpoints and the hyperparameter search\<close>

text \<open>
  Claim C4, as amended. In mode \<open>hparams_search\<close> with \<open>gpus\<close> equal to 0 the script starts
  the library's search with \<open>main\<close> as the training function and 20 trials. Within
  every training run that \<open>main\<close> starts, the checkpoint callback saves only the best
  model, monitoring the metric \<open>f1_score\<close> in mode \<open>max\<close>. \<open>main\<close> returns \<open>None\<close>, so a
  trial reports no validation F1 to the search, and the code selects no best
  configuration across trials.
\<close>

theorem checkpoint_monitors_f1_score:
  "(main sem_cls ctx_cls base rng0 hp = Inr run \<longrightarrow>
      save_best_only (checkpoint_callback (fit_trainer run)) \<and>
      monitor (checkpoint_callback (fit_trainer run)) = ''f1_score'' \<and>
      mode (checkpoint_callback (fit_trainer run)) = ''max'' \<and>
      returned run = NoneV) \<and>
   (parse_args (get_args add_model_specific_args cwd) argv = Inr hp' \<and>
    getattr hp' ''mode'' = Inr (StrV ''hparams_search'') \<and>
    getattr hp' ''gpus'' = Inr (IntV 0) \<longrightarrow>
      main_py sem_cls ctx_cls base rng0 cwd argv =
        Inr (Searched (LibraryCall ''optimize_parallel_cpu'' (main sem_cls ctx_cls base rng0)
                         [(''nb_trials'', IntArg 20), (''nb_workers'', IntArg 1)])))"
proof (intro conjI impI)
  assume "main sem_cls ctx_cls base rng0 hp = Inr run"
  from main_Inr[OF this]
  show "save_best_only (checkpoint_callback (fit_trainer run))"
    and "monitor (checkpoint_callback (fit_trainer run)) = ''f1_score''"
    and "mode (checkpoint_callback (fit_trainer run)) = ''max''"
    and "returned run = NoneV"
    by simp_all
next
  assume "parse_args (get_args add_model_specific_args cwd) argv = Inr hp' \<and>
    getattr hp' ''mode'' = Inr (StrV ''hparams_search'') \<and>
    getattr hp' ''gpus'' = Inr (IntV 0)"
  then show "main_py sem_cls ctx_cls base rng0 cwd argv =
        Inr (Searched (LibraryCall ''optimize_parallel_cpu'' (main sem_cls ctx_cls base rng0)
                         [(''nb_trials'', IntArg 20), (''nb_workers'', IntArg 1)]))"
    using main_py_search_cpu[of cwd argv hp' sem_cls ctx_cls base rng0] by blast
qed

theorem checkpoint_monitors_f1_score_witness:
  "\<exists>hp run hp'.
     parse_args (get_args add_model_specific_args ''/repo'') [] = Inr hp \<and>
     main example_sem example_ctx example_base example_rng hp = Inr run \<and>
     save_best_only (checkpoint_callback (fit_trainer run)) \<and>
     monitor (checkpoint_callback (fit_trainer run)) = ''f1_score'' \<and>
     mode (checkpoint_callback (fit_trainer run)) = ''max'' \<and>
     returned run = NoneV \<and>
     parse_args (get_args add_model_specific_args ''/repo'') [''--mode'', ''hparams_search''] = Inr hp' \<and>
     getattr hp' ''mode'' = Inr (StrV ''hparams_search'') \<and>
     getattr hp' ''gpus'' = Inr (IntV 0) \<and>
     main_py example_sem example_ctx example_base example_rng ''/repo'' [''--mode'', ''hparams_search''] =
       Inr (Searched (LibraryCall ''optimize_parallel_cpu''
                       (main example_sem example_ctx example_base example_rng)
                       [(''nb_trials'', IntArg 20), (''nb_workers'', IntArg 1)]))"
proof -
  from main_no_overrides obtain hp run where
    p: "parse_args (get_args add_model_specific_args ''/repo'') [] = Inr hp"
    and r: "main example_sem example_ctx example_base example_rng hp = Inr run"
    by blast
  from parse_mode_search obtain hp' where
    p': "parse_args (get_args add_model_specific_args ''/repo'') [''--mode'', ''hparams_search''] = Inr hp'"
    and m: "getattr hp' ''mode'' = Inr (StrV ''hparams_search'')"
    and g: "getattr hp' ''gpus'' = Inr (IntV 0)"
    by blast
  note inst = checkpoint_monitors_f1_score[of example_sem example_ctx example_base example_rng hp run
      "''/repo''" "[''--mode'', ''hparams_search'']" hp']
  from inst r
  have ckpt: "save_best_only (checkpoint_callback (fit_trainer run)) \<and>
        monitor (checkpoint_callback (fit_trainer run)) = ''f1_score'' \<and>
        mode (checkpoint_callback (fit_trainer run)) = ''max'' \<and>
        returned run = NoneV"
    by blast
  from inst p' m g
  have "main_py example_sem example_ctx example_base example_rng ''/repo'' [''--mode'', ''hparams_search''] =
       Inr (Searched (LibraryCall ''optimize_parallel_cpu''
                       (main example_sem example_ctx example_base example_rng)
                       [(''nb_trials'', IntArg 20), (''nb_workers'', IntArg 1)]))"
    by blast
  with p r ckpt p' m g show ?thesis
    by blast
qed

text \<open>
  The claim as first stated, that the search selects the best-performing configuration
  by validation F1, fails on the code: in search mode the script's whole effect is one
  call of the library's search with \<open>main\<close> as training function, whose value the script
  drops, and a run of \<open>main\<close> hands back \<open>None\<close> and no metric.
\<close>

theorem search_selects_no_configuration:
  "main_py example_sem example_ctx example_base example_rng ''/repo'' [''--mode'', ''hparams_search''] =
     Inr (Searched (LibraryCall ''optimize_parallel_cpu''
                     (main example_sem example_ctx example_base example_rng)
                     [(''nb_trials'', IntArg 20), (''nb_workers'', IntArg 1)])) \<and>
   (\<exists>hp run. parse_args (get_args add_model_specific_args ''/repo'') [] = Inr hp \<and>
             main example_sem example_ctx example_base example_rng hp = Inr run \<and>
             returned run = NoneV)"
proof -
  from parse_mode_search obtain hp' where
    "parse_args (get_args add_model_specific_args ''/repo'') [''--mode'', ''hparams_search''] = Inr hp'"
    "getattr hp' ''mode'' = Inr (StrV ''hparams_search'')" "getattr hp' ''gpus'' = Inr (IntV 0)"
    by blast
  from main_py_search_cpu[OF this, of example_sem example_ctx example_base example_rng]
    main_no_overrides
  show ?thesis by blast
qed

section \<open>The label mapping and the predicted label\<close>







end
